theory Spec2Isabelle
  imports Main "HOL-Library.Multiset" "HOL-Library.Sublist"
begin

section \<open>The deploy task plugin of warpdrive (taskplugin/deploy.go)\<close>

text \<open>
  The plugin patches the image of one container of a Kubernetes workload (\<open>Run\<close>) and
  then polls the cluster until the rollout is ready, has failed, was cancelled or timed
  out (\<open>Wait\<close>). Everything the plugin reads from the outside (the cluster API, the
  aslan HTTP service, the clock) is an explicit argument of the model: a record of
  functions giving the answer of each call. A Go \<open>error\<close> is modelled by its message,
  \<open>nil\<close> by \<open>None\<close>.
\<close>

subsection \<open>Data\<close>

type_synonym error = string

text \<open>\<open>map[string]string\<close>: the plugin only stores label sets and hands them to the
  cluster API, so the order of the pairs is never observed.\<close>

type_synonym labels = "(string \<times> string) list"

type_synonym version = string

text \<open>\<open>config.Status\<close> is a string type; the constants the plugin uses are constructors,
  any other value is \<open>StatusOther\<close>.\<close>

datatype status =
    StatusCreated
  | StatusRunning
  | StatusPassed
  | StatusFailed
  | StatusTimeout
  | StatusCancelled
  | StatusOther string

text \<open>\<open>task.Resource\<close>.\<close>

record resource =
  r_Kind :: string
  r_Container :: string
  r_Origin :: string
  r_Name :: string
  r_PodOwnerUID :: string

text \<open>\<open>task.Deploy\<close>, the fields the plugin touches.\<close>

record task =
  Namespace :: string
  ServiceName :: string
  ServiceType :: string
  ContainerName :: string
  TaskImage :: string
  EnvName :: string
  ProductName :: string
  Timeout :: int
  SkipWaiting :: bool
  TaskStatus :: status
  Error :: string
  ReplaceResources :: "resource list"
  RelatedPodLabels :: "labels list"

text \<open>\<open>corev1.Container\<close>: name and image.\<close>

record container =
  c_Name :: string
  c_Image :: string

text \<open>
  The fields the plugin reads of \<open>appsv1.Deployment\<close>, \<open>appsv1.StatefulSet\<close>,
  \<open>batchv1.CronJob\<close> and \<open>batchv1beta1.CronJob\<close>: one record for the four Go types.
  \<open>w_Containers\<close> is the pod template's container list, \<open>w_TemplateLabels\<close> the pod
  template's labels, \<open>w_Selector\<close> is \<open>Spec.Selector\<close>; the last five fields are the
  counters that readiness is computed from.
\<close>

record workload =
  w_Namespace :: string
  w_Name :: string
  w_UID :: string
  w_Containers :: "container list"
  w_TemplateLabels :: labels
  w_Selector :: labels
  w_Generation :: int
  w_ObservedGeneration :: int
  w_Replicas :: int
  w_UpdatedReplicas :: int
  w_AvailableReplicas :: int

text \<open>\<open>appsv1.ReplicaSet\<close>: its UID, its creation time and the UID of the owner
  reference marked as controller (if any).\<close>

record replicaSet =
  rs_UID :: string
  rs_CreationTimestamp :: int
  rs_ControllerUID :: "string option"

text \<open>\<open>corev1.ContainerStatus\<close>: \<open>State.Waiting\<close> is a pointer to a reason and a message.\<close>

record containerStatus =
  cs_Waiting :: "(string \<times> string) option"

text \<open>\<open>resource.Container\<close> and \<open>resource.Pod\<close>, the view that
  \<open>wrapper.Pod(pod).Resource()\<close> returns.\<close>

record resContainer =
  rc_Status :: string
  rc_Reason :: string
  rc_Message :: string

record podResource =
  pr_Status :: string
  pr_Containers :: "resContainer list"

text \<open>
  \<open>corev1.Pod\<close>. The package \<open>wrapper\<close> is not part of these sources, so the two things
  the plugin asks it about a pod are fields of the pod: \<open>pod_Resource\<close> is the value of
  \<open>wrapper.Pod(pod).Resource()\<close> and \<open>pod_IsOwnerMatched uid\<close> the value of
  \<open>wrapper.Pod(pod).IsOwnerMatched(uid)\<close>, both unconstrained.
\<close>

record pod =
  pod_Name :: string
  pod_InitContainerStatuses :: "containerStatus list"
  pod_ContainerStatuses :: "containerStatus list"
  pod_IsOwnerMatched :: "string \<Rightarrow> bool"
  pod_Resource :: podResource

text \<open>
  The getters of package \<open>getter\<close> return \<open>(object, found, err)\<close>: an error, or no
  error and not found (the object is then \<open>nil\<close>), or the object.
\<close>

datatype 'a got = GetErr error | NotFound | Found 'a

text \<open>
  The cluster as one client sees it: the answer of every call of packages \<open>getter\<close>
  and \<open>updater\<close> that the plugin makes, as a function of the call's arguments (the
  client argument is left out). \<open>LabelSelectorAsSelector\<close> is apimachinery's conversion,
  which can fail.
\<close>

record kube =
  ListDeployments :: "string \<Rightarrow> labels \<Rightarrow> error + workload list"
  ListStatefulSets :: "string \<Rightarrow> labels \<Rightarrow> error + workload list"
  ListCronJobs :: "string \<Rightarrow> labels \<Rightarrow> bool \<Rightarrow> error + (workload list \<times> workload list)"
  GetDeployment :: "string \<Rightarrow> string \<Rightarrow> workload got"
  GetStatefulSet :: "string \<Rightarrow> string \<Rightarrow> workload got"
  GetCronJob :: "string \<Rightarrow> string \<Rightarrow> bool \<Rightarrow> (workload option \<times> workload option) got"
  ListPods :: "string \<Rightarrow> labels \<Rightarrow> error + pod list"
  ListReplicaSets :: "string \<Rightarrow> labels \<Rightarrow> error + replicaSet list"
  LabelSelectorAsSelector :: "labels \<Rightarrow> error + labels"
  UpdateDeploymentImage :: "string \<Rightarrow> string \<Rightarrow> string \<Rightarrow> string \<Rightarrow> error option"
  UpdateStatefulSetImage :: "string \<Rightarrow> string \<Rightarrow> string \<Rightarrow> string \<Rightarrow> error option"
  UpdateCronJobImage :: "string \<Rightarrow> string \<Rightarrow> string \<Rightarrow> string \<Rightarrow> bool \<Rightarrow> error option"

text \<open>\<open>types.ServiceTmpl\<close> and the decoded manifest (\<open>unstructured.Unstructured\<close>).\<close>

record serviceTmpl =
  WorkloadType :: string

record unstructured =
  u_Kind :: string
  u_Name :: string

text \<open>
  \<open>kubernetes.Interface\<close>, as far as the plugin uses it: the answer of
  \<open>Discovery().ServerVersion()\<close>. A \<open>nil\<close> clientset is \<open>None\<close>; that call on it panics.
\<close>

record clientset =
  Discovery_ServerVersion :: "error + version"

text \<open>
  What \<open>Run\<close> reads besides the task: the two fields of the pipeline task's config
  payload, the client constructors of package \<open>kubeclient\<close> (of the first two only the
  error matters to the plugin; the third returns a clientset and an error, and \<open>Run\<close>
  stores the clientset whatever the error is), the field \<open>ClientSet\<close> of the plugin as
  it is when \<open>Run\<close> starts, the product lookup (\<open>IsSleeping\<close> of the product found), the
  two HTTP calls to aslan, the YAML decoder and the cluster.
\<close>

record run_env =
  DeployClusterID :: string
  HubServerAddr :: string
  GetRESTConfig :: "string \<Rightarrow> string \<Rightarrow> error option"
  GetKubeClient :: "string \<Rightarrow> string \<Rightarrow> error option"
  GetKubeClientSet :: "string \<Rightarrow> string \<Rightarrow> clientset option \<times> error option"
  ClientSet :: "clientset option"
  VersionLessThan121 :: "version \<Rightarrow> bool"
  GetProductInfo :: "string \<Rightarrow> string \<Rightarrow> error + bool"
  httpGetService :: "string \<Rightarrow> string \<Rightarrow> int \<Rightarrow> error + serviceTmpl"
  httpGetManifests :: "string \<Rightarrow> string \<Rightarrow> string \<Rightarrow> error + string list"
  YamlToUnstructured :: "string \<Rightarrow> error + unstructured"
  kubeClient :: kube

subsection \<open>Constants of package setting\<close>

text \<open>Modelled from the spec: package \<open>setting\<close> is not part of these sources; the kinds
  are the Kubernetes kind names the spec uses (\<open>Kind:"Deployment"\<close>).\<close>

definition setting_Deployment :: string where
  "setting_Deployment = ''Deployment''"

definition setting_StatefulSet :: string where
  "setting_StatefulSet = ''StatefulSet''"

definition setting_CronJob :: string where
  "setting_CronJob = ''CronJob''"

text \<open>Modelled from the spec: the pod phases \<open>setting.StatusRunning\<close> and
  \<open>setting.StatusSucceeded\<close>, by their Kubernetes names.\<close>

definition setting_StatusRunning :: string where
  "setting_StatusRunning = ''Running''"

definition setting_StatusSucceeded :: string where
  "setting_StatusSucceeded = ''Succeeded''"

text \<open>The label keys of the selector in \<open>fetchRelatedWorkloads\<close> (named in its comment).\<close>

definition setting_ProductLabel :: string where
  "setting_ProductLabel = ''s-product''"

definition setting_ServiceLabel :: string where
  "setting_ServiceLabel = ''s-service''"

subsection \<open>Library functions\<close>

text \<open>\<open>errors.WithMessage(err, msg)\<close>: the message is \<open>msg: err\<close>.\<close>

definition WithMessage :: "error \<Rightarrow> string \<Rightarrow> error" where
  "WithMessage e msg = msg @ '': '' @ e"

text \<open>\<open>strings.TrimSuffix\<close>.\<close>

definition TrimSuffix :: "string \<Rightarrow> string \<Rightarrow> string" where
  "TrimSuffix s suf =
     (if length suf \<le> length s \<and> drop (length s - length suf) s = suf
      then take (length s - length suf) s else s)"

text \<open>\<open>strings.Join\<close>.\<close>

fun Join :: "string list \<Rightarrow> string \<Rightarrow> string" where
  "Join [] sep = ''''"
| "Join [x] sep = x"
| "Join (x # y # ys) sep = x @ sep @ Join (y # ys) sep"

subsection \<open>Accessors of the plugin\<close>

definition IsTaskDone :: "task \<Rightarrow> bool" where
  "IsTaskDone t = (TaskStatus t \<noteq> StatusCreated \<and> TaskStatus t \<noteq> StatusRunning)"

definition IsTaskFailed :: "task \<Rightarrow> bool" where
  "IsTaskFailed t =
     (TaskStatus t = StatusFailed \<or> TaskStatus t = StatusTimeout \<or> TaskStatus t = StatusCancelled)"

text \<open>\<open>TaskTimeout\<close> stores the default in the task when the timeout is zero;
  \<open>setting.DeployTimeout\<close> is an argument.\<close>

definition TaskTimeout :: "int \<Rightarrow> task \<Rightarrow> task" where
  "TaskTimeout deployTimeout t = (if Timeout t = 0 then t\<lparr>Timeout := deployTimeout\<rparr> else t)"

definition Complete :: "task \<Rightarrow> task" where
  "Complete t = t"

subsection \<open>Run: resolving the workloads\<close>

text \<open>\<open>getService\<close>: one HTTP GET; the URL is built from name and service type, the
  query carries the project name and the revision.\<close>

definition getService :: "run_env \<Rightarrow> string \<Rightarrow> string \<Rightarrow> string \<Rightarrow> int \<Rightarrow> error + serviceTmpl" where
  "getService env name serviceType productName revision =
     httpGetService env (''/api/service/services/'' @ name @ ''/'' @ serviceType) productName revision"

definition getRenderedManifests :: "run_env \<Rightarrow> string \<Rightarrow> string \<Rightarrow> string \<Rightarrow> error + string list" where
  "getRenderedManifests env envName productName serviceName =
     httpGetManifests env productName envName serviceName"

text \<open>
  The calls \<open>fetchRelatedWorkloads\<close> makes are logged, so that a theorem can say whether
  the fallback \<open>fetchWorkloadsForImportedService\<close> was invoked.
\<close>

datatype call =
    CallListDeployments
  | CallListStatefulSets
  | CallListCronJobs
  | CallFetchImported

type_synonym workloads = "workload list \<times> workload list \<times> workload list \<times> workload list"

text \<open>
  The loop of \<open>fetchWorkloadsForImportedService\<close> over the manifests: a manifest that
  does not decode, or whose object is not found (or whose lookup fails), is skipped.
\<close>

fun importedLoop :: "run_env \<Rightarrow> string \<Rightarrow> version \<Rightarrow> string list \<Rightarrow> workloads \<Rightarrow> workloads" where
  "importedLoop env namespace ver [] acc = acc"
| "importedLoop env namespace ver (manifest # ms) (deploys, stss, crons, cronBetas) =
     (case YamlToUnstructured env manifest of
        Inl e \<Rightarrow> importedLoop env namespace ver ms (deploys, stss, crons, cronBetas)
      | Inr u \<Rightarrow>
          if u_Kind u = setting_Deployment then
            (case GetDeployment (kubeClient env) namespace (u_Name u) of
               Found deployment \<Rightarrow>
                 importedLoop env namespace ver ms (deploys @ [deployment], stss, crons, cronBetas)
             | _ \<Rightarrow> importedLoop env namespace ver ms (deploys, stss, crons, cronBetas))
          else if u_Kind u = setting_StatefulSet then
            (case GetStatefulSet (kubeClient env) namespace (u_Name u) of
               Found sts \<Rightarrow>
                 importedLoop env namespace ver ms (deploys, stss @ [sts], crons, cronBetas)
             | _ \<Rightarrow> importedLoop env namespace ver ms (deploys, stss, crons, cronBetas))
          else if u_Kind u = setting_CronJob then
            (case GetCronJob (kubeClient env) namespace (u_Name u) (VersionLessThan121 env ver) of
               Found (cron, cronBatch) \<Rightarrow>
                 importedLoop env namespace ver ms
                   (deploys, stss,
                    (case cron of Some c \<Rightarrow> crons @ [c] | None \<Rightarrow> crons),
                    (case cronBatch of Some c \<Rightarrow> cronBetas @ [c] | None \<Rightarrow> cronBetas))
             | _ \<Rightarrow> importedLoop env namespace ver ms (deploys, stss, crons, cronBetas))
          else importedLoop env namespace ver ms (deploys, stss, crons, cronBetas))"

definition fetchWorkloadsForImportedService ::
  "run_env \<Rightarrow> string \<Rightarrow> string \<Rightarrow> string \<Rightarrow> string \<Rightarrow> version \<Rightarrow> error + workloads" where
  "fetchWorkloadsForImportedService env envName namespace productName serviceName ver =
     (case getRenderedManifests env envName productName serviceName of
        Inl e \<Rightarrow> Inl e
      | Inr manifests \<Rightarrow> Inr (importedLoop env namespace ver manifests ([], [], [], [])))"

text \<open>The selector of \<open>fetchRelatedWorkloads\<close>: the product and the service label.\<close>

definition serviceSelector :: "string \<Rightarrow> string \<Rightarrow> labels" where
  "serviceSelector productName serviceName =
     [(setting_ProductLabel, productName), (setting_ServiceLabel, serviceName)]"

text \<open>\<open>fetchRelatedWorkloads\<close>, with the log of its calls.\<close>

definition fetchRelatedWorkloads ::
  "run_env \<Rightarrow> string \<Rightarrow> string \<Rightarrow> string \<Rightarrow> string \<Rightarrow> version \<Rightarrow> call list \<times> (error + workloads)" where
  "fetchRelatedWorkloads env envName namespace productName serviceName ver =
     (let selector = serviceSelector productName serviceName in
      case ListDeployments (kubeClient env) namespace selector of
        Inl e \<Rightarrow> ([CallListDeployments], Inl e)
      | Inr deployments \<Rightarrow>
      (case ListStatefulSets (kubeClient env) namespace selector of
        Inl e \<Rightarrow> ([CallListDeployments, CallListStatefulSets], Inl e)
      | Inr statefulSets \<Rightarrow>
      (case ListCronJobs (kubeClient env) namespace selector (VersionLessThan121 env ver) of
        Inl e \<Rightarrow> ([CallListDeployments, CallListStatefulSets, CallListCronJobs], Inl e)
      | Inr (cronJobs, cronJobBeta) \<Rightarrow>
          if length deployments > 0 \<or> length statefulSets > 0 \<or> length cronJobs > 0
             \<or> length cronJobBeta > 0
          then ([CallListDeployments, CallListStatefulSets, CallListCronJobs],
                Inr (deployments, statefulSets, cronJobs, cronJobBeta))
          else ([CallListDeployments, CallListStatefulSets, CallListCronJobs, CallFetchImported],
                fetchWorkloadsForImportedService env envName namespace productName serviceName ver))))"

subsection \<open>Run: patching the image\<close>

text \<open>The inner loop over the containers of one workload: the first container of the
  given name.\<close>

fun scanContainers :: "string \<Rightarrow> container list \<Rightarrow> container option" where
  "scanContainers containerName [] = None"
| "scanContainers containerName (c # cs) =
     (if c_Name c = containerName then Some c else scanContainers containerName cs)"

text \<open>The labelled outer loop over the workloads of one kind: the first workload that
  has such a container, with that container.\<close>

fun scanWorkloads :: "string \<Rightarrow> workload list \<Rightarrow> (workload \<times> container) option" where
  "scanWorkloads containerName [] = None"
| "scanWorkloads containerName (w # ws) =
     (case scanContainers containerName (w_Containers w) of
        Some c \<Rightarrow> Some (w, c)
      | None \<Rightarrow> scanWorkloads containerName ws)"

text \<open>
  \<open>Run\<close> has eight copies of one loop, which differ in the updater called, the kind
  recorded, the word in the error message and whether the pod template's labels are
  appended to \<open>RelatedPodLabels\<close> (only the four copies of the unknown-type path do so).
  \<open>patch\<close> is that loop: on the first match it calls the updater; if that fails, \<open>Run\<close>
  returns with the wrapped error (\<open>Inl\<close>, with the task as it is then); otherwise the
  resource is appended, \<open>replaced\<close> becomes true and the loop is left. The state is
  \<open>(replaced, task)\<close>.
\<close>

definition patch ::
  "(string \<Rightarrow> string \<Rightarrow> string \<Rightarrow> string \<Rightarrow> error option) \<Rightarrow> string \<Rightarrow> string \<Rightarrow> bool \<Rightarrow>
   workload list \<Rightarrow> string \<Rightarrow> bool \<times> task \<Rightarrow> (error \<times> task) + (bool \<times> task)" where
  "patch update kind word withLabels ws containerName st =
     (case scanWorkloads containerName ws of
        None \<Rightarrow> Inr st
      | Some (w, c) \<Rightarrow>
          (case update (w_Namespace w) (w_Name w) containerName (TaskImage (snd st)) of
             Some e \<Rightarrow>
               Inl (WithMessage e
                      (''failed to update container image in '' @ Namespace (snd st) @ ''/'' @ word
                       @ ''/'' @ w_Name w @ ''/'' @ c_Name c),
                    snd st)
           | None \<Rightarrow>
               Inr (True,
                    (snd st)\<lparr>ReplaceResources := ReplaceResources (snd st) @
                        [\<lparr>r_Kind = kind, r_Container = c_Name c, r_Origin = c_Image c,
                          r_Name = w_Name w, r_PodOwnerUID = ''''\<rparr>],
                      RelatedPodLabels :=
                        (if withLabels then RelatedPodLabels (snd st) @ [w_TemplateLabels w]
                         else RelatedPodLabels (snd st))\<rparr>)))"

definition updateCron :: "kube \<Rightarrow> string \<Rightarrow> string \<Rightarrow> string \<Rightarrow> string \<Rightarrow> error option" where
  "updateCron k ns name containerName img = UpdateCronJobImage k ns name containerName img False"

text \<open>Sequencing of steps that may return from \<open>Run\<close>.\<close>

definition andThen ::
  "(error \<times> task) + (bool \<times> task) \<Rightarrow> (bool \<times> task \<Rightarrow> (error \<times> task) + (bool \<times> task)) \<Rightarrow>
   (error \<times> task) + (bool \<times> task)" where
  "andThen r f = (case r of Inl x \<Rightarrow> Inl x | Inr st \<Rightarrow> f st)"

text \<open>The branch \<open>serviceInfo.WorkloadType == ""\<close> (lines 202 to 302).\<close>

definition Run_unknown :: "run_env \<Rightarrow> version \<Rightarrow> string \<Rightarrow> task \<Rightarrow> (error \<times> task) + (bool \<times> task)" where
  "Run_unknown env ver containerName t =
     (case snd (fetchRelatedWorkloads env (EnvName t) (Namespace t) (ProductName t) (ServiceName t) ver) of
        Inl e \<Rightarrow> Inl (WithMessage e ''failed to fetch related workloads'', t)
      | Inr (deployments, statefulSets, cronJobs, cronJobBetas) \<Rightarrow>
          andThen (patch (UpdateDeploymentImage (kubeClient env)) setting_Deployment ''deployments''
                     True deployments containerName (False, t)) (\<lambda>s1.
          andThen (patch (UpdateStatefulSetImage (kubeClient env)) setting_StatefulSet ''statefulsets''
                     True statefulSets containerName s1) (\<lambda>s2.
          andThen (patch (updateCron (kubeClient env)) setting_CronJob ''statefulsets''
                     True cronJobs containerName s2) (\<lambda>s3.
          patch (updateCron (kubeClient env)) setting_CronJob ''statefulsets''
                     True cronJobBetas containerName s3))))"

text \<open>The \<open>switch serviceInfo.WorkloadType\<close> of the other branch (lines 304 to 421); a
  type that is none of the three falls through the switch.\<close>

definition Run_known :: "run_env \<Rightarrow> version \<Rightarrow> string \<Rightarrow> string \<Rightarrow> task \<Rightarrow> (error \<times> task) + (bool \<times> task)" where
  "Run_known env ver workloadType containerName t =
     (if workloadType = setting_StatefulSet then
        (case GetStatefulSet (kubeClient env) (Namespace t) (ServiceName t) of
           GetErr e \<Rightarrow> Inl (e, t)
         | NotFound \<Rightarrow> Inl (''statefulset: '' @ ServiceName t @ '' not found'', t)
         | Found statefulSet \<Rightarrow>
             patch (UpdateStatefulSetImage (kubeClient env)) setting_StatefulSet ''statefulsets''
               False [statefulSet] containerName (False, t))
      else if workloadType = setting_Deployment then
        (case GetDeployment (kubeClient env) (Namespace t) (ServiceName t) of
           GetErr e \<Rightarrow> Inl (e, t)
         | NotFound \<Rightarrow> Inl (''deployment: '' @ ServiceName t @ '' not found'', t)
         | Found deployment \<Rightarrow>
             patch (UpdateDeploymentImage (kubeClient env)) setting_Deployment ''deployments''
               False [deployment] containerName (False, t))
      else if workloadType = setting_CronJob then
        (case GetCronJob (kubeClient env) (Namespace t) (ServiceName t) (VersionLessThan121 env ver) of
           GetErr e \<Rightarrow> Inl (WithMessage e (''failed to get cronjob '' @ ServiceName t), t)
         | NotFound \<Rightarrow> Inl (''cronJob: '' @ ServiceName t @ '' not found'', t)
         | Found (cronJob, cronJobBeta) \<Rightarrow>
             andThen (case cronJob of
                        None \<Rightarrow> Inr (False, t)
                      | Some cj \<Rightarrow> patch (updateCron (kubeClient env)) setting_CronJob ''cronJob''
                                    False [cj] containerName (False, t)) (\<lambda>s1.
             case cronJobBeta of
               None \<Rightarrow> Inr s1
             | Some cb \<Rightarrow> patch (updateCron (kubeClient env)) setting_CronJob ''cronJob''
                           False [cb] containerName s1))
      else Inr (False, t))"

text \<open>Lines 189 to 427: the service lookup, the two branches and the final check of
  \<open>replaced\<close>. The result is the value of \<open>err\<close> when \<open>Run\<close> returns, and the task.\<close>

definition containerNotFound :: "string \<Rightarrow> error" where
  "containerNotFound containerName = ''container '' @ containerName @ '' is not found in resources ''"

text \<open>The logical container name (lines 189 and 190): the configured name without the
  suffix \<open>_<serviceName>\<close>.\<close>

definition strippedName :: "task \<Rightarrow> string" where
  "strippedName t = TrimSuffix (ContainerName t) (''_'' @ ServiceName t)"

definition Run_mutate :: "run_env \<Rightarrow> version \<Rightarrow> task \<Rightarrow> error option \<times> task" where
  "Run_mutate env ver t =
     (let containerName = strippedName t in
      case getService env (ServiceName t) (ServiceType t) (ProductName t) 0 of
        Inl e \<Rightarrow> (Some e, t)
      | Inr serviceInfo \<Rightarrow>
          (case (if WorkloadType serviceInfo = '''' then Run_unknown env ver containerName t
                 else Run_known env ver (WorkloadType serviceInfo) containerName t) of
             Inl (e, t') \<Rightarrow> (Some e, t')
           | Inr (replaced, t') \<Rightarrow>
               if \<not> replaced then (Some (containerNotFound containerName), t') else (None, t')))"

text \<open>
  Lines 151 to 168, the clients of another cluster. The result is the list of the values
  assigned to \<open>err\<close> in the block, in order, the field \<open>ClientSet\<close> after the block, and
  whether the block returned from \<open>Run\<close>. The third call stores what the constructor
  returned in \<open>ClientSet\<close>, assigns the wrapped error and does not return.
\<close>

definition Run_connect :: "run_env \<Rightarrow> (error option list \<times> clientset option) \<times> bool" where
  "Run_connect env =
     (if DeployClusterID env \<noteq> '''' then
        (case GetRESTConfig env (HubServerAddr env) (DeployClusterID env) of
           Some e \<Rightarrow> (([Some e, Some (WithMessage e ''can't get k8s rest config'')], ClientSet env), True)
         | None \<Rightarrow>
        (case GetKubeClient env (HubServerAddr env) (DeployClusterID env) of
           Some e \<Rightarrow> (([None, Some e, Some (WithMessage e ''can't init k8s client'')], ClientSet env), True)
         | None \<Rightarrow>
        (case GetKubeClientSet env (HubServerAddr env) (DeployClusterID env) of
           (cs, Some e) \<Rightarrow>
             (([None, None, Some e, Some (WithMessage e ''failed to init k8s clientset'')], cs), False)
         | (cs, None) \<Rightarrow> (([None, None, None], cs), False))))
      else (([], ClientSet env), False))"

text \<open>The field \<open>ClientSet\<close> on which line 170 calls \<open>Discovery().ServerVersion()\<close>.\<close>

definition Run_clientSet :: "run_env \<Rightarrow> clientset option" where
  "Run_clientSet env = snd (fst (Run_connect env))"

text \<open>How the body of \<open>Run\<close> is left: by a \<open>return\<close> (or its end), or by a panic.\<close>

datatype exit = Returned | Panicked

text \<open>
  The body of \<open>Run\<close>: how it is left, the values that \<open>err\<close> takes in order (one entry
  for each assignment of lines 151 to 187, and the value that lines 189 to 427 leave,
  which are entered with \<open>err = nil\<close>), and the task. Line 170 panics when the clientset
  is \<open>nil\<close>. After the first block, \<open>err\<close> is assigned again by the version check (when
  it fails) or by \<open>productInfo, err := GetProductInfo(...)\<close>, which assigns the variable
  declared at the top of the function.
\<close>

definition Run_flow :: "run_env \<Rightarrow> task \<Rightarrow> exit \<times> error option list \<times> task" where
  "Run_flow env t =
     (case Run_connect env of
        ((errs, cs), returned) \<Rightarrow>
          if returned then (Returned, errs, t)
          else
            (case cs of
               None \<Rightarrow> (Panicked, errs, t)
             | Some clientSet \<Rightarrow>
          (case Discovery_ServerVersion clientSet of
             Inl errGetVersion \<Rightarrow>
               (Returned,
                errs @ [Some (WithMessage errGetVersion ''failed to get kubernetes server version'')], t)
           | Inr ver \<Rightarrow>
               (case GetProductInfo env (EnvName t) (ProductName t) of
                  Inl e \<Rightarrow>
                    (Returned,
                     errs @ [Some e,
                             Some (WithMessage e (''failed to get product '' @ Namespace t @ ''/'' @ ServiceName t))],
                     t)
                | Inr sleeping \<Rightarrow>
                    if sleeping
                    then (Returned,
                          errs @ [None, Some (''product '' @ ProductName t @ ''/'' @ EnvName t @ '' is sleeping'')],
                          t)
                    else (case Run_mutate env ver t of
                            (err, t') \<Rightarrow> (Returned, errs @ [None, err], t'))))))"

text \<open>The values that \<open>err\<close> takes during the body, and whether the body panics.\<close>

definition Run_errs :: "run_env \<Rightarrow> task \<Rightarrow> error option list" where
  "Run_errs env t = fst (snd (Run_flow env t))"

definition Run_panics :: "run_env \<Rightarrow> task \<Rightarrow> bool" where
  "Run_panics env t \<longleftrightarrow> fst (Run_flow env t) = Panicked"

text \<open>
  The value of \<open>err\<close> and the task when the body is left, by return or by panic: \<open>err\<close>
  is \<open>nil\<close> at the start and holds the last value assigned to it.
\<close>

definition Run_body :: "run_env \<Rightarrow> task \<Rightarrow> error option \<times> task" where
  "Run_body env t = (last (None # Run_errs env t), snd (snd (Run_flow env t)))"

text \<open>The deferred function of \<open>Run\<close>, applied to the \<open>err\<close> that the body leaves. It
  runs when the body returns and also when it panics.\<close>

definition Run_deferred :: "error option \<times> task \<Rightarrow> task" where
  "Run_deferred r =
     (case fst r of
        Some e \<Rightarrow> (snd r)\<lparr>TaskStatus := StatusFailed, Error := e\<rparr>
      | None \<Rightarrow> snd r)"

text \<open>The task after \<open>Run\<close>, whichever way the body is left.\<close>

definition Run :: "run_env \<Rightarrow> task \<Rightarrow> task" where
  "Run env t = Run_deferred (Run_body env t)"

subsection \<open>Wait: the owner of the pods of this rollout\<close>

text \<open>\<open>metav1.IsControlledBy(rs, deployment)\<close>: the controller reference of the
  ReplicaSet has the UID of the Deployment.\<close>

definition IsControlledBy :: "replicaSet \<Rightarrow> workload \<Rightarrow> bool" where
  "IsControlledBy rs deployment = (rs_ControllerUID rs = Some (w_UID deployment))"

text \<open>The comparison handed to \<open>sort.Slice\<close>: \<open>a\<close> was created after \<open>b\<close>.\<close>

definition createdAfter :: "replicaSet \<Rightarrow> replicaSet \<Rightarrow> bool" where
  "createdAfter a b = (rs_CreationTimestamp a > rs_CreationTimestamp b)"

text \<open>
  The calls of \<open>getResourcesPodOwnerUID\<close> are logged, \<open>time.Sleep\<close> (in seconds) among
  them.
\<close>

datatype wcall =
    WGetStatefulSet string
  | WGetDeployment string
  | WSleep int
  | WListReplicaSets

text \<open>
  One pass of the loop of \<open>getResourcesPodOwnerUID\<close>: the function returns with an
  error and the list built so far (\<open>Fail\<close>), returns with an error and \<open>nil\<close>
  (\<open>FailNil\<close>), dereferences a \<open>nil\<close> object or indexes an empty slice (\<open>Panic\<close>: the
  \<open>found\<close> result of the getters is ignored here), or appends the resource
  (\<open>Enriched\<close>). \<open>sort.Slice\<close> is the argument \<open>sortSlice\<close>.
\<close>

datatype stepResult = Panic | Fail error | FailNil error | Enriched resource

definition ownerStep ::
  "kube \<Rightarrow> ((replicaSet \<Rightarrow> replicaSet \<Rightarrow> bool) \<Rightarrow> replicaSet list \<Rightarrow> replicaSet list) \<Rightarrow> string \<Rightarrow>
   resource \<Rightarrow> wcall list \<times> stepResult" where
  "ownerStep k sortSlice ns r =
     (if r_Kind r = setting_StatefulSet then
        (case GetStatefulSet k ns (r_Name r) of
           GetErr e \<Rightarrow> ([WGetStatefulSet (r_Name r)], Fail e)
         | NotFound \<Rightarrow> ([WGetStatefulSet (r_Name r)], Panic)
         | Found sts \<Rightarrow> ([WGetStatefulSet (r_Name r)], Enriched (r\<lparr>r_PodOwnerUID := w_UID sts\<rparr>)))
      else if r_Kind r = setting_Deployment then
        (case GetDeployment k ns (r_Name r) of
           GetErr e \<Rightarrow> ([WGetDeployment (r_Name r)], Fail e)
         | NotFound \<Rightarrow> ([WGetDeployment (r_Name r)], Panic)
         | Found deployment \<Rightarrow>
             (case LabelSelectorAsSelector k (w_Selector deployment) of
                Inl e \<Rightarrow> ([WGetDeployment (r_Name r)], FailNil e)
              | Inr selector \<Rightarrow>
                  (case ListReplicaSets k ns selector of
                     Inl e \<Rightarrow> ([WGetDeployment (r_Name r), WSleep 3, WListReplicaSets], Fail e)
                   | Inr replicaSets \<Rightarrow>
                       (let owned = filter (\<lambda>rs. IsControlledBy rs deployment) replicaSets in
                        if length owned \<le> 0
                        then ([WGetDeployment (r_Name r), WSleep 3, WListReplicaSets],
                              Fail (''no replicaset found for deployment: '' @ w_Name deployment))
                        else (case sortSlice createdAfter owned of
                                [] \<Rightarrow> ([WGetDeployment (r_Name r), WSleep 3, WListReplicaSets], Panic)
                              | first # rest \<Rightarrow>
                                  ([WGetDeployment (r_Name r), WSleep 3, WListReplicaSets],
                                   Enriched (r\<lparr>r_PodOwnerUID := rs_UID first\<rparr>)))))))
      else ([], Enriched r))"

text \<open>The loop: \<open>newResources\<close> is the list built so far. The result is the log and the
  returned pair, or \<open>None\<close> for a panic.\<close>

fun ownerLoop ::
  "kube \<Rightarrow> ((replicaSet \<Rightarrow> replicaSet \<Rightarrow> bool) \<Rightarrow> replicaSet list \<Rightarrow> replicaSet list) \<Rightarrow> string \<Rightarrow>
   resource list \<Rightarrow> resource list \<Rightarrow> wcall list \<times> (resource list \<times> error option) option" where
  "ownerLoop k sortSlice ns newResources [] = ([], Some (newResources, None))"
| "ownerLoop k sortSlice ns newResources (r # rs) =
     (case ownerStep k sortSlice ns r of
        (log, Panic) \<Rightarrow> (log, None)
      | (log, Fail e) \<Rightarrow> (log, Some (newResources, Some e))
      | (log, FailNil e) \<Rightarrow> (log, Some ([], Some e))
      | (log, Enriched r') \<Rightarrow>
          (case ownerLoop k sortSlice ns (newResources @ [r']) rs of
             (log', res) \<Rightarrow> (log @ log', res)))"

definition getResourcesPodOwnerUID ::
  "kube \<Rightarrow> ((replicaSet \<Rightarrow> replicaSet \<Rightarrow> bool) \<Rightarrow> replicaSet list \<Rightarrow> replicaSet list) \<Rightarrow> task \<Rightarrow>
   wcall list \<times> (resource list \<times> error option) option" where
  "getResourcesPodOwnerUID k sortSlice t = ownerLoop k sortSlice (Namespace t) [] (ReplaceResources t)"

subsection \<open>Wait: the pods\<close>

text \<open>The reasons listed in the \<open>switch\<close> of \<open>workLoadDeployStat\<close>, and the error it
  returns for a pod, a reason and a message.\<close>

definition terminalReason :: "string \<Rightarrow> bool" where
  "terminalReason reason \<longleftrightarrow>
     reason = ''ImagePullBackOff'' \<or> reason = ''ErrImagePull'' \<or> reason = ''CrashLoopBackOff''
     \<or> reason = ''ErrImageNeverPull''"

definition podError :: "string \<Rightarrow> string \<Rightarrow> string \<Rightarrow> error" where
  "podError podName reason message = ''pod: '' @ podName @ '', '' @ reason @ '': '' @ message"

text \<open>The loop of \<open>workLoadDeployStat\<close> over the container statuses of one pod (init
  containers first).\<close>

fun scanStatuses :: "string \<Rightarrow> containerStatus list \<Rightarrow> error option" where
  "scanStatuses podName [] = None"
| "scanStatuses podName (cs # rest) =
     (case cs_Waiting cs of
        None \<Rightarrow> scanStatuses podName rest
      | Some (reason, message) \<Rightarrow>
          if terminalReason reason then Some (podError podName reason message)
          else scanStatuses podName rest)"

fun scanPods :: "string \<Rightarrow> pod list \<Rightarrow> error option" where
  "scanPods ownerUID [] = None"
| "scanPods ownerUID (p # ps) =
     (if \<not> pod_IsOwnerMatched p ownerUID then scanPods ownerUID ps
      else (case scanStatuses (pod_Name p) (pod_InitContainerStatuses p @ pod_ContainerStatuses p) of
              Some e \<Rightarrow> Some e
            | None \<Rightarrow> scanPods ownerUID ps))"

fun workLoadDeployStat :: "kube \<Rightarrow> string \<Rightarrow> labels list \<Rightarrow> string \<Rightarrow> error option" where
  "workLoadDeployStat k namespace [] ownerUID = None"
| "workLoadDeployStat k namespace (label # labelMaps) ownerUID =
     (case ListPods k namespace label of
        Inl e \<Rightarrow> Some e
      | Inr pods \<Rightarrow>
          (case scanPods ownerUID pods of
             Some e \<Rightarrow> Some e
           | None \<Rightarrow> workLoadDeployStat k namespace labelMaps ownerUID))"

text \<open>The diagnostic scan of the timeout case: the lines of one pod view, of the pods of
  one label set, and the loop over the label sets with the list \<open>msg\<close> built so far.\<close>

definition diagLine :: "resContainer \<Rightarrow> string" where
  "diagLine cs = ''Status: '' @ rc_Status cs @ '', Reason: '' @ rc_Reason cs @ '', Message: '' @ rc_Message cs"

fun containerLines :: "resContainer list \<Rightarrow> string list" where
  "containerLines [] = []"
| "containerLines (cs # rest) =
     (if rc_Message cs \<noteq> '''' then diagLine cs # containerLines rest else containerLines rest)"

fun podLines :: "pod list \<Rightarrow> string list" where
  "podLines [] = []"
| "podLines (p # ps) =
     (if pr_Status (pod_Resource p) \<noteq> setting_StatusRunning
         \<and> pr_Status (pod_Resource p) \<noteq> setting_StatusSucceeded
      then containerLines (pr_Containers (pod_Resource p)) @ podLines ps
      else podLines ps)"

fun timeoutScan :: "kube \<Rightarrow> string \<Rightarrow> labels list \<Rightarrow> string list \<Rightarrow> error + string list" where
  "timeoutScan k namespace [] msg = Inr msg"
| "timeoutScan k namespace (label # ls) msg =
     (case ListPods k namespace label of
        Inl e \<Rightarrow> Inl e
      | Inr pods \<Rightarrow> timeoutScan k namespace ls (msg @ podLines pods))"

text \<open>The case \<open><-timeout\<close> of the select.\<close>

definition onTimeout :: "kube \<Rightarrow> task \<Rightarrow> task" where
  "onTimeout k t =
     (case timeoutScan k (Namespace t) (RelatedPodLabels t) [] of
        Inl e \<Rightarrow> t\<lparr>TaskStatus := StatusTimeout, Error := e\<rparr>
      | Inr msg \<Rightarrow>
          if length msg \<noteq> 0 then t\<lparr>TaskStatus := StatusTimeout, Error := Join msg [CHR 0x0A]\<rparr>
          else t\<lparr>TaskStatus := StatusTimeout\<rparr>)"

subsection \<open>Wait: readiness and the poll loop\<close>

text \<open>Modelled from the spec: \<open>wrapper.Deployment(d).Ready()\<close> is not part of these
  sources. "Deployment ready iff observed generation >= desired generation AND updated
  replica count == desired AND available replica count == desired".\<close>

definition Deployment_Ready :: "workload \<Rightarrow> bool" where
  "Deployment_Ready d =
     (w_ObservedGeneration d \<ge> w_Generation d \<and> w_UpdatedReplicas d = w_Replicas d
      \<and> w_AvailableReplicas d = w_Replicas d)"

text \<open>Modelled from the spec: \<open>wrapper.StatefulSet(s).Ready()\<close> is not part of these
  sources. "StatefulSet ready iff analogous replica/generation match".\<close>

definition StatefulSet_Ready :: "workload \<Rightarrow> bool" where
  "StatefulSet_Ready s =
     (w_ObservedGeneration s \<ge> w_Generation s \<and> w_UpdatedReplicas s = w_Replicas s
      \<and> w_AvailableReplicas s = w_Replicas s)"

text \<open>
  The loop \<open>L\<close> of the default case over the resources, with its variables
  \<open>(ready, err)\<close>: \<open>Inl e\<close> when the pod check fails (\<open>Wait\<close> then returns), \<open>Inr ready\<close>
  when the loop ends or is left by \<open>break L\<close>.
\<close>

fun pollLoop :: "kube \<Rightarrow> task \<Rightarrow> resource list \<Rightarrow> bool \<times> error option \<Rightarrow> error + bool" where
  "pollLoop k t [] (ready, err) = Inr ready"
| "pollLoop k t (r # rs) (ready, err) =
     (case workLoadDeployStat k (Namespace t) (RelatedPodLabels t) (r_PodOwnerUID r) of
        Some e \<Rightarrow> Inl e
      | None \<Rightarrow>
          if r_Kind r = setting_Deployment then
            (let g = GetDeployment k (Namespace t) (r_Name r);
                 err' = (case g of GetErr e \<Rightarrow> Some e | _ \<Rightarrow> err);
                 ready' = (case g of Found d \<Rightarrow> Deployment_Ready d | _ \<Rightarrow> False)
             in if \<not> ready' then Inr ready' else pollLoop k t rs (ready', err'))
          else if r_Kind r = setting_StatefulSet then
            (let g = GetStatefulSet k (Namespace t) (r_Name r);
                 err' = (case g of GetErr e \<Rightarrow> Some e | _ \<Rightarrow> err);
                 ready' = (case g of Found s \<Rightarrow> (if err' \<noteq> None then False else StatefulSet_Ready s)
                           | _ \<Rightarrow> False)
             in if \<not> ready' then Inr ready' else pollLoop k t rs (ready', err'))
          else pollLoop k t rs (ready, err))"

text \<open>One pass of the default case: the task after it and whether \<open>Wait\<close> returns.\<close>

definition pollTick :: "kube \<Rightarrow> task \<Rightarrow> task \<times> bool" where
  "pollTick k t =
     (case pollLoop k t (ReplaceResources t) (True, None) of
        Inl e \<Rightarrow> (t\<lparr>TaskStatus := StatusFailed, Error := e\<rparr>, True)
      | Inr ready \<Rightarrow>
          (let t' = (if ready then t\<lparr>TaskStatus := StatusPassed\<rparr> else t) in (t', IsTaskDone t')))"

text \<open>
  The \<open>for { select { ... } }\<close> of \<open>Wait\<close>. Each pass takes one of three cases; which one
  is decided outside the plugin (the context, the timer, the scheduler's choice when
  several are ready). The passes before the timer case is taken are a list: \<open>CtxDone\<close>
  for the case \<open><-ctx.Done()\<close>, \<open>Poll k\<close> for the default case over the cluster as it is
  then. The timer of \<open>time.After\<close> fires after finitely many passes, since every default
  pass sleeps two seconds; the timer case is taken when the list is used up.
\<close>

datatype tick = CtxDone | Poll kube

fun waitLoop :: "kube \<Rightarrow> tick list \<Rightarrow> task \<Rightarrow> task" where
  "waitLoop kt [] t = onTimeout kt t"
| "waitLoop kt (CtxDone # ts) t = t\<lparr>TaskStatus := StatusCancelled\<rparr>"
| "waitLoop kt (Poll k # ts) t =
     (case pollTick k t of
        (t', True) \<Rightarrow> t'
      | (t', False) \<Rightarrow> waitLoop kt ts t')"

text \<open>What \<open>Wait\<close> reads besides the task: \<open>setting.DeployTimeout\<close>, \<open>sort.Slice\<close>, the
  cluster during the setup, the passes of the loop and the cluster at the timeout.\<close>

record wait_env =
  DeployTimeout :: int
  sortSlice :: "(replicaSet \<Rightarrow> replicaSet \<Rightarrow> bool) \<Rightarrow> replicaSet list \<Rightarrow> replicaSet list"
  atSetup :: kube
  ticks :: "tick list"
  atTimeout :: kube

text \<open>\<open>Wait\<close>; \<open>None\<close> is a panic during the setup.\<close>

definition Wait :: "wait_env \<Rightarrow> task \<Rightarrow> task option" where
  "Wait env t0 =
     (if SkipWaiting t0 then Some (t0\<lparr>TaskStatus := StatusPassed\<rparr>)
      else
        (let t = TaskTimeout (DeployTimeout env) t0 in
         case snd (getResourcesPodOwnerUID (atSetup env) (sortSlice env) t) of
           None \<Rightarrow> None
         | Some (resources, Some e) \<Rightarrow> Some (t\<lparr>Error := ''get resource owner info error: '' @ e\<rparr>)
         | Some (resources, None) \<Rightarrow>
             Some (waitLoop (atTimeout env) (ticks env) (t\<lparr>ReplaceResources := resources\<rparr>))))"

text \<open>
  \<open>sort.Slice\<close> for slices of fewer than twelve elements is an insertion sort; this
  instance is used where a concrete sort is needed.
\<close>

fun insertBy :: "('a \<Rightarrow> 'a \<Rightarrow> bool) \<Rightarrow> 'a \<Rightarrow> 'a list \<Rightarrow> 'a list" where
  "insertBy lt x [] = [x]"
| "insertBy lt x (y # ys) = (if lt y x then y # insertBy lt x ys else x # y # ys)"

fun insertionSort :: "('a \<Rightarrow> 'a \<Rightarrow> bool) \<Rightarrow> 'a list \<Rightarrow> 'a list" where
  "insertionSort lt [] = []"
| "insertionSort lt (x # xs) = insertBy lt x (insertionSort lt xs)"

subsection \<open>Notions used in the statements\<close>

text \<open>
  The invariant of the loops of \<open>Run\<close>, relative to the task \<open>t\<close> that \<open>Run\<close> started
  with: the state \<open>(replaced, task)\<close> has resources appended to those of \<open>t\<close>,
  \<open>replaced\<close> says whether any was appended, label sets are appended (none when
  \<open>withLabels\<close> is false), and nothing else of the task has changed.
\<close>

definition patched :: "bool \<Rightarrow> task \<Rightarrow> bool \<times> task \<Rightarrow> bool" where
  "patched withLabels t st \<longleftrightarrow>
     (\<exists>rs ls. snd st = t\<lparr>ReplaceResources := ReplaceResources t @ rs,
                            RelatedPodLabels := RelatedPodLabels t @ ls\<rparr>
        \<and> (fst st \<longleftrightarrow> rs \<noteq> []) \<and> (\<not> withLabels \<longrightarrow> ls = []))"

definition outcome :: "bool \<Rightarrow> task \<Rightarrow> (error \<times> task) + (bool \<times> task) \<Rightarrow> bool" where
  "outcome withLabels t r =
     (case r of
        Inl (e, t') \<Rightarrow> (\<exists>b. patched withLabels t (b, t'))
      | Inr st \<Rightarrow> patched withLabels t st)"

text \<open>
  The workloads whose containers \<open>Run\<close> scans, when it gets that far: in the unknown-type
  path the four lists that \<open>fetchRelatedWorkloads\<close> returns, in the other path the
  object that the getter of the service's workload type returns (both objects for a
  CronJob, none for a type outside the switch). \<open>None\<close> when the lookup fails.
\<close>

definition discovered :: "run_env \<Rightarrow> version \<Rightarrow> task \<Rightarrow> workload list option" where
  "discovered env ver t =
     (case getService env (ServiceName t) (ServiceType t) (ProductName t) 0 of
        Inl e \<Rightarrow> None
      | Inr serviceInfo \<Rightarrow>
          if WorkloadType serviceInfo = '''' then
            (case snd (fetchRelatedWorkloads env (EnvName t) (Namespace t) (ProductName t)
                         (ServiceName t) ver) of
               Inl e \<Rightarrow> None
             | Inr (deployments, statefulSets, cronJobs, cronJobBetas) \<Rightarrow>
                 Some (deployments @ statefulSets @ cronJobs @ cronJobBetas))
          else if WorkloadType serviceInfo = setting_StatefulSet then
            (case GetStatefulSet (kubeClient env) (Namespace t) (ServiceName t) of
               Found statefulSet \<Rightarrow> Some [statefulSet] | _ \<Rightarrow> None)
          else if WorkloadType serviceInfo = setting_Deployment then
            (case GetDeployment (kubeClient env) (Namespace t) (ServiceName t) of
               Found deployment \<Rightarrow> Some [deployment] | _ \<Rightarrow> None)
          else if WorkloadType serviceInfo = setting_CronJob then
            (case GetCronJob (kubeClient env) (Namespace t) (ServiceName t) (VersionLessThan121 env ver) of
               Found (cronJob, cronJobBeta) \<Rightarrow>
                 Some ((case cronJob of Some c \<Rightarrow> [c] | None \<Rightarrow> [])
                       @ (case cronJobBeta of Some c \<Rightarrow> [c] | None \<Rightarrow> []))
             | _ \<Rightarrow> None)
          else Some [])"

text \<open>
  A tracked resource is ready in a cluster: a Deployment or StatefulSet is found and its
  \<open>Ready()\<close> holds; resources of other kinds are not polled and count as ready.
\<close>

definition resourceReady :: "kube \<Rightarrow> string \<Rightarrow> resource \<Rightarrow> bool" where
  "resourceReady k ns r =
     (if r_Kind r = setting_Deployment then
        (case GetDeployment k ns (r_Name r) of Found d \<Rightarrow> Deployment_Ready d | _ \<Rightarrow> False)
      else if r_Kind r = setting_StatefulSet then
        (case GetStatefulSet k ns (r_Name r) of Found s \<Rightarrow> StatefulSet_Ready s | _ \<Rightarrow> False)
      else True)"


text \<open>The diagnostic lines that the timeout case takes from one pod: none if the pod's
  view has status \<open>Running\<close> or \<open>Succeeded\<close>, otherwise one line for each container of
  the view with a non-empty message.\<close>

definition podDiag :: "pod \<Rightarrow> string list" where
  "podDiag p =
     (if pr_Status (pod_Resource p) \<noteq> setting_StatusRunning
         \<and> pr_Status (pod_Resource p) \<noteq> setting_StatusSucceeded
      then map diagLine (filter (\<lambda>cs. rc_Message cs \<noteq> '''') (pr_Containers (pod_Resource p)))
      else [])"

text \<open>
  What the plugin relies on of \<open>sort.Slice\<close> with the comparison \<open>createdAfter\<close>: the
  result is a permutation of the slice in which no element was created after an
  element before it. (\<open>sort.Slice\<close> is not stable: among ReplicaSets of equal creation
  time the order is not determined.)
\<close>

definition sortsNewestFirst ::
  "((replicaSet \<Rightarrow> replicaSet \<Rightarrow> bool) \<Rightarrow> replicaSet list \<Rightarrow> replicaSet list) \<Rightarrow> bool" where
  "sortsNewestFirst srt \<longleftrightarrow>
     (\<forall>xs. mset (srt createdAfter xs) = mset xs
           \<and> sorted_wrt (\<lambda>a b. \<not> createdAfter b a) (srt createdAfter xs))"

text \<open>In a log of calls, every listing of ReplicaSets comes directly after a sleep of
  three seconds.\<close>

fun graceBeforeListing :: "wcall list \<Rightarrow> bool" where
  "graceBeforeListing [] = True"
| "graceBeforeListing (WSleep d # WListReplicaSets # cs) = (d = 3 \<and> graceBeforeListing cs)"
| "graceBeforeListing (WListReplicaSets # cs) = False"
| "graceBeforeListing (c # cs) = graceBeforeListing cs"

text \<open>
  \<open>r'\<close> is the resource \<open>r\<close> with its pod owner filled in: nothing but \<open>PodOwnerUID\<close>
  differs; for a StatefulSet it is the UID of the StatefulSet; for a Deployment it is
  the UID of a ReplicaSet that is controlled by the Deployment and was created no
  earlier than any other ReplicaSet controlled by it (among those listed with the
  Deployment's selector); a resource of another kind is unchanged.
\<close>

definition enriched :: "kube \<Rightarrow> string \<Rightarrow> resource \<Rightarrow> resource \<Rightarrow> bool" where
  "enriched k ns r r' \<longleftrightarrow>
     r' = r\<lparr>r_PodOwnerUID := r_PodOwnerUID r'\<rparr>
     \<and> (r_Kind r = setting_StatefulSet \<longrightarrow>
          (\<exists>sts. GetStatefulSet k ns (r_Name r) = Found sts \<and> r_PodOwnerUID r' = w_UID sts))
     \<and> (r_Kind r = setting_Deployment \<longrightarrow>
          (\<exists>d sel rss newest.
              GetDeployment k ns (r_Name r) = Found d
              \<and> LabelSelectorAsSelector k (w_Selector d) = Inr sel
              \<and> ListReplicaSets k ns sel = Inr rss
              \<and> newest \<in> set rss \<and> IsControlledBy newest d
              \<and> (\<forall>x\<in>set rss. IsControlledBy x d \<longrightarrow> rs_CreationTimestamp x \<le> rs_CreationTimestamp newest)
              \<and> r_PodOwnerUID r' = rs_UID newest))
     \<and> (r_Kind r \<noteq> setting_StatefulSet \<and> r_Kind r \<noteq> setting_Deployment \<longrightarrow> r' = r)"




subsection \<open>Concrete inputs\<close>

text \<open>A cluster with no objects, in which every call succeeds.\<close>

definition emptyKube :: kube where
  "emptyKube =
     \<lparr>ListDeployments = (\<lambda>ns sel. Inr []),
      ListStatefulSets = (\<lambda>ns sel. Inr []),
      ListCronJobs = (\<lambda>ns sel old. Inr ([], [])),
      GetDeployment = (\<lambda>ns n. NotFound),
      GetStatefulSet = (\<lambda>ns n. NotFound),
      GetCronJob = (\<lambda>ns n old. NotFound),
      ListPods = (\<lambda>ns sel. Inr []),
      ListReplicaSets = (\<lambda>ns sel. Inr []),
      LabelSelectorAsSelector = (\<lambda>sel. Inr sel),
      UpdateDeploymentImage = (\<lambda>ns n c i. None),
      UpdateStatefulSetImage = (\<lambda>ns n c i. None),
      UpdateCronJobImage = (\<lambda>ns n c i b. None)\<rparr>"

text \<open>The scenario of the spec: service \<open>myservice\<close>, container identity
  \<open>api_myservice\<close>, a Deployment \<open>myservice\<close> with a container \<open>api\<close> at
  \<open>repo/app:1.0\<close>, target image \<open>repo/app:2.0\<close>. The Deployment has not caught up: its
  observed generation is behind and two of three replicas are available.\<close>

definition demoTask :: task where
  "demoTask =
     \<lparr>Namespace = ''ns'', ServiceName = ''myservice'', ServiceType = ''k8s'',
      ContainerName = ''api_myservice'', TaskImage = ''repo/app:2.0'', EnvName = ''dev'',
      ProductName = ''proj'', Timeout = 0, SkipWaiting = False, TaskStatus = StatusRunning,
      Error = '''', ReplaceResources = [], RelatedPodLabels = []\<rparr>"

definition demoWorkload :: workload where
  "demoWorkload =
     \<lparr>w_Namespace = ''ns'', w_Name = ''myservice'', w_UID = ''uid-1'',
      w_Containers = [\<lparr>c_Name = ''sidecar'', c_Image = ''repo/proxy:1''\<rparr>,
                      \<lparr>c_Name = ''api'', c_Image = ''repo/app:1.0''\<rparr>],
      w_TemplateLabels = [(''app'', ''myservice'')], w_Selector = [(''app'', ''myservice'')],
      w_Generation = 2, w_ObservedGeneration = 1, w_Replicas = 3, w_UpdatedReplicas = 3,
      w_AvailableReplicas = 2\<rparr>"

definition demoKube :: kube where
  "demoKube = emptyKube\<lparr>GetDeployment := (\<lambda>ns n. if n = ''myservice'' then Found demoWorkload else NotFound)\<rparr>"

definition demoEnv :: run_env where
  "demoEnv =
     \<lparr>DeployClusterID = '''', HubServerAddr = ''hub'',
      GetRESTConfig = (\<lambda>hub cluster. None),
      GetKubeClient = (\<lambda>hub cluster. None),
      GetKubeClientSet = (\<lambda>hub cluster. (Some \<lparr>Discovery_ServerVersion = Inr ''v1.22''\<rparr>, None)),
      ClientSet = Some \<lparr>Discovery_ServerVersion = Inr ''v1.22''\<rparr>,
      VersionLessThan121 = (\<lambda>v. False),
      GetProductInfo = (\<lambda>e p. Inr False),
      httpGetService = (\<lambda>url p rev. Inr \<lparr>WorkloadType = ''Deployment''\<rparr>),
      httpGetManifests = (\<lambda>p e s. Inr []),
      YamlToUnstructured = (\<lambda>m. Inl ''not yaml''),
      kubeClient = demoKube\<rparr>"

text \<open>The resource that \<open>Run\<close> records in that scenario, and the task after \<open>Run\<close>.\<close>

definition demoResource :: resource where
  "demoResource =
     \<lparr>r_Kind = ''Deployment'', r_Container = ''api'', r_Origin = ''repo/app:1.0'',
      r_Name = ''myservice'', r_PodOwnerUID = ''''\<rparr>"

definition trackedTask :: task where
  "trackedTask = demoTask\<lparr>ReplaceResources := [demoResource]\<rparr>"

text \<open>The scenario with a container identity that no container of the Deployment has.\<close>

definition workerTask :: task where
  "workerTask = demoTask\<lparr>ContainerName := ''worker_myservice''\<rparr>"


text \<open>The service has no workload type and the cluster has no workload: \<open>Run\<close> finds no
  container.\<close>

definition noWorkloadEnv :: run_env where
  "noWorkloadEnv =
     demoEnv\<lparr>httpGetService := (\<lambda>url p rev. Inr \<lparr>WorkloadType = ''''\<rparr>), kubeClient := emptyKube\<rparr>"

text \<open>An environment for \<open>Wait\<close> over the empty cluster in which the timer fires before
  the first pass, and one in which the lookup of the Deployment fails during the
  setup.\<close>

definition demoWaitEnv :: wait_env where
  "demoWaitEnv =
     \<lparr>DeployTimeout = 600, sortSlice = insertionSort, atSetup = emptyKube, ticks = [],
      atTimeout = emptyKube\<rparr>"

definition setupFailEnv :: wait_env where
  "setupFailEnv =
     demoWaitEnv\<lparr>atSetup := emptyKube\<lparr>GetDeployment := (\<lambda>ns n. GetErr ''connection refused'')\<rparr>\<rparr>"

text \<open>The StatefulSet of the spec's scenario: three replicas desired, three updated, two
  available; a cluster that has it, the same cluster once the third replica is
  available, a task that tracks it, and a \<open>Wait\<close> whose first pass sees two available
  replicas and whose second pass sees three.\<close>

definition laggingStatefulSet :: workload where
  "laggingStatefulSet =
     \<lparr>w_Namespace = ''ns'', w_Name = ''db'', w_UID = ''uid-db'',
      w_Containers = [\<lparr>c_Name = ''db'', c_Image = ''repo/db:2''\<rparr>],
      w_TemplateLabels = [(''app'', ''db'')], w_Selector = [(''app'', ''db'')],
      w_Generation = 4, w_ObservedGeneration = 4, w_Replicas = 3, w_UpdatedReplicas = 3,
      w_AvailableReplicas = 2\<rparr>"

definition laggingKube :: kube where
  "laggingKube = emptyKube\<lparr>GetStatefulSet := (\<lambda>ns n. if n = ''db'' then Found laggingStatefulSet else NotFound)\<rparr>"

definition caughtUpKube :: kube where
  "caughtUpKube =
     emptyKube\<lparr>GetStatefulSet :=
       (\<lambda>ns n. if n = ''db'' then Found (laggingStatefulSet\<lparr>w_AvailableReplicas := 3\<rparr>) else NotFound)\<rparr>"

definition dbTask :: task where
  "dbTask =
     demoTask\<lparr>ReplaceResources :=
                [\<lparr>r_Kind = ''StatefulSet'', r_Container = ''db'', r_Origin = ''repo/db:1'',
                  r_Name = ''db'', r_PodOwnerUID = ''uid-db''\<rparr>]\<rparr>"

definition dbWaitEnv :: wait_env where
  "dbWaitEnv = demoWaitEnv\<lparr>atSetup := caughtUpKube, ticks := [Poll laggingKube, Poll caughtUpKube]\<rparr>"

text \<open>A cluster in which the Deployment of the scenario has two ReplicaSets of its own
  (the newer one is \<open>rs-new\<close>) and there is one of another owner, together with the
  StatefulSet \<open>db\<close>; and a task that tracks the Deployment, the StatefulSet and a
  CronJob.\<close>

definition rolloutKube :: kube where
  "rolloutKube =
     emptyKube\<lparr>GetDeployment := (\<lambda>ns n. if n = ''myservice'' then Found demoWorkload else NotFound),
               GetStatefulSet := (\<lambda>ns n. if n = ''db'' then Found laggingStatefulSet else NotFound),
               ListReplicaSets :=
                 (\<lambda>ns sel. Inr [\<lparr>rs_UID = ''rs-old'', rs_CreationTimestamp = 100, rs_ControllerUID = Some ''uid-1''\<rparr>,
                                 \<lparr>rs_UID = ''rs-new'', rs_CreationTimestamp = 200, rs_ControllerUID = Some ''uid-1''\<rparr>,
                                 \<lparr>rs_UID = ''rs-other'', rs_CreationTimestamp = 300, rs_ControllerUID = Some ''uid-9''\<rparr>])\<rparr>"

definition threeKindsTask :: task where
  "threeKindsTask =
     demoTask\<lparr>ReplaceResources :=
                [demoResource,
                 \<lparr>r_Kind = ''StatefulSet'', r_Container = ''db'', r_Origin = ''repo/db:1'',
                  r_Name = ''db'', r_PodOwnerUID = ''''\<rparr>,
                 \<lparr>r_Kind = ''CronJob'', r_Container = ''job'', r_Origin = ''repo/job:1'',
                  r_Name = ''nightly'', r_PodOwnerUID = ''''\<rparr>]\<rparr>"

text \<open>
  Two pods. The pod of the Deployment (owned by the ReplicaSet \<open>rs-new\<close>) is pending and
  its container waits with reason \<open>ContainerCreating\<close>. The pod of the StatefulSet
  (owned by \<open>uid-db\<close>) counts as running and its container waits in
  \<open>CrashLoopBackOff\<close>. \<open>podsKube\<close> is the cluster \<open>rolloutKube\<close> with these pods, listed
  by the labels of their workloads.
\<close>

definition creatingPod :: pod where
  "creatingPod =
     \<lparr>pod_Name = ''myservice-1'', pod_InitContainerStatuses = [],
      pod_ContainerStatuses = [\<lparr>cs_Waiting = Some (''ContainerCreating'', ''pulling image'')\<rparr>],
      pod_IsOwnerMatched = (\<lambda>uid. uid = ''rs-new''),
      pod_Resource =
        \<lparr>pr_Status = ''Pending'',
         pr_Containers = [\<lparr>rc_Status = ''waiting'', rc_Reason = ''ContainerCreating'',
                           rc_Message = ''pulling image''\<rparr>]\<rparr>\<rparr>"

definition crashPod :: pod where
  "crashPod =
     \<lparr>pod_Name = ''db-0'', pod_InitContainerStatuses = [],
      pod_ContainerStatuses = [\<lparr>cs_Waiting = Some (''CrashLoopBackOff'', ''back-off restarting'')\<rparr>],
      pod_IsOwnerMatched = (\<lambda>uid. uid = ''uid-db''),
      pod_Resource =
        \<lparr>pr_Status = setting_StatusRunning,
         pr_Containers = [\<lparr>rc_Status = ''waiting'', rc_Reason = ''CrashLoopBackOff'',
                           rc_Message = ''back-off restarting''\<rparr>]\<rparr>\<rparr>"

definition podsKube :: kube where
  "podsKube =
     rolloutKube\<lparr>ListPods :=
       (\<lambda>ns sel. if sel = [(''app'', ''myservice'')] then Inr [creatingPod]
                  else if sel = [(''app'', ''db'')] then Inr [crashPod]
                  else Inr [])\<rparr>"

text \<open>
  A task as the unknown-type path of \<open>Run\<close> leaves it when it has patched the Deployment
  and the StatefulSet (\<open>patchedTwoTask\<close>), and the same task with the pod owners that
  the setup of \<open>Wait\<close> computes in \<open>podsKube\<close> (\<open>twoResourceTask\<close>). In \<open>stuckWaitEnv\<close>
  the cluster stays \<open>podsKube\<close>: two passes of the default case, then the timer.
\<close>

definition patchedTwoTask :: task where
  "patchedTwoTask =
     demoTask\<lparr>ReplaceResources :=
                [demoResource,
                 \<lparr>r_Kind = ''StatefulSet'', r_Container = ''db'', r_Origin = ''repo/db:1'',
                  r_Name = ''db'', r_PodOwnerUID = ''''\<rparr>],
              RelatedPodLabels := [[(''app'', ''myservice'')], [(''app'', ''db'')]]\<rparr>"

definition twoResourceTask :: task where
  "twoResourceTask =
     patchedTwoTask\<lparr>ReplaceResources :=
                [demoResource\<lparr>r_PodOwnerUID := ''rs-new''\<rparr>,
                 \<lparr>r_Kind = ''StatefulSet'', r_Container = ''db'', r_Origin = ''repo/db:1'',
                  r_Name = ''db'', r_PodOwnerUID = ''uid-db''\<rparr>]\<rparr>"

definition stuckWaitEnv :: wait_env where
  "stuckWaitEnv =
     demoWaitEnv\<lparr>atSetup := podsKube, ticks := [Poll podsKube, Poll podsKube], atTimeout := podsKube\<rparr>"


section \<open>Properties\<close>

subsection \<open>The manifest fallback of the resolver\<close>

text \<open>
  Claim C5. In the unknown-type path, \<open>fetchRelatedWorkloads\<close> invokes the manifest
  fallback \<open>fetchWorkloadsForImportedService\<close> if and only if the three list queries
  succeed and all four lists are empty. It invokes it at most once and then returns its
  result; when it does not invoke it and returns lists, one of them is not empty; an
  error of a list query is returned as it is, after the calls made so far, and the
  fallback is not invoked.
\<close>

theorem fallback_only_on_empty_result:
  "(CallFetchImported \<in> set (fst (fetchRelatedWorkloads env e ns p s v)) \<longleftrightarrow>
      ListDeployments (kubeClient env) ns (serviceSelector p s) = Inr []
      \<and> ListStatefulSets (kubeClient env) ns (serviceSelector p s) = Inr []
      \<and> ListCronJobs (kubeClient env) ns (serviceSelector p s) (VersionLessThan121 env v) = Inr ([], []))
   \<and> count_list (fst (fetchRelatedWorkloads env e ns p s v)) CallFetchImported \<le> 1
   \<and> (CallFetchImported \<in> set (fst (fetchRelatedWorkloads env e ns p s v)) \<longrightarrow>
        snd (fetchRelatedWorkloads env e ns p s v) = fetchWorkloadsForImportedService env e ns p s v)
   \<and> (CallFetchImported \<notin> set (fst (fetchRelatedWorkloads env e ns p s v)) \<longrightarrow>
        snd (fetchRelatedWorkloads env e ns p s v) = Inr (ds, ss, cs, bs) \<longrightarrow>
        ds \<noteq> [] \<or> ss \<noteq> [] \<or> cs \<noteq> [] \<or> bs \<noteq> [])
   \<and> (ListDeployments (kubeClient env) ns (serviceSelector p s) = Inl err \<longrightarrow>
        fetchRelatedWorkloads env e ns p s v = ([CallListDeployments], Inl err))
   \<and> (ListDeployments (kubeClient env) ns (serviceSelector p s) = Inr ds' \<longrightarrow>
        ListStatefulSets (kubeClient env) ns (serviceSelector p s) = Inl err \<longrightarrow>
        fetchRelatedWorkloads env e ns p s v = ([CallListDeployments, CallListStatefulSets], Inl err))
   \<and> (ListDeployments (kubeClient env) ns (serviceSelector p s) = Inr ds' \<longrightarrow>
        ListStatefulSets (kubeClient env) ns (serviceSelector p s) = Inr ss' \<longrightarrow>
        ListCronJobs (kubeClient env) ns (serviceSelector p s) (VersionLessThan121 env v) = Inl err \<longrightarrow>
        fetchRelatedWorkloads env e ns p s v
          = ([CallListDeployments, CallListStatefulSets, CallListCronJobs], Inl err))"
  by (auto simp: fetchRelatedWorkloads_def Let_def split: sum.splits prod.splits)

text \<open>In the empty cluster the three queries return empty lists and the fallback runs.\<close>

theorem fallback_only_on_empty_result_witness:
  "ListDeployments (kubeClient demoEnv) ''ns'' (serviceSelector ''proj'' ''myservice'') = Inr []
   \<and> ListStatefulSets (kubeClient demoEnv) ''ns'' (serviceSelector ''proj'' ''myservice'') = Inr []
   \<and> ListCronJobs (kubeClient demoEnv) ''ns'' (serviceSelector ''proj'' ''myservice'')
        (VersionLessThan121 demoEnv ''v1.22'') = Inr ([], [])
   \<and> CallFetchImported \<in> set (fst (fetchRelatedWorkloads demoEnv ''dev'' ''ns'' ''proj'' ''myservice'' ''v1.22''))
   \<and> snd (fetchRelatedWorkloads demoEnv ''dev'' ''ns'' ''proj'' ''myservice'' ''v1.22'') = Inr ([], [], [], [])"
  using fallback_only_on_empty_result [of demoEnv "''dev''" "''ns''" "''proj''" "''myservice''" "''v1.22''"]
  by (simp add: demoEnv_def demoKube_def emptyKube_def fetchWorkloadsForImportedService_def
      getRenderedManifests_def)

subsection \<open>Lemmas about the loops of Run\<close>

lemma scanContainers_None_iff:
  "scanContainers cn cs = None \<longleftrightarrow> (\<forall>c\<in>set cs. c_Name c \<noteq> cn)"
  by (induction cs) auto

lemma scanContainers_Some:
  "scanContainers cn cs = Some c \<Longrightarrow> c \<in> set cs \<and> c_Name c = cn"
  by (induction cs) (auto split: if_splits)

lemma scanWorkloads_None_iff:
  "scanWorkloads cn ws = None \<longleftrightarrow> (\<forall>w\<in>set ws. \<forall>c\<in>set (w_Containers w). c_Name c \<noteq> cn)"
proof (induction ws)
  case Nil
  show ?case by simp
next
  case (Cons w ws)
  show ?case
  proof (cases "scanContainers cn (w_Containers w)")
    case None
    then have "\<forall>c\<in>set (w_Containers w). c_Name c \<noteq> cn"
      by (simp add: scanContainers_None_iff)
    with Cons show ?thesis by (simp add: None)
  next
    case (Some c)
    with scanContainers_Some [OF Some] show ?thesis by auto
  qed
qed

lemma patched_refl: "patched wl t (False, t)"
  unfolding patched_def by (intro exI [of _ "[]"]) simp

lemma patch_no_match: "scanWorkloads cn ws = None \<Longrightarrow> patch u kind word wl ws cn st = Inr st"
  by (simp add: patch_def)

lemma patch_outcome:
  assumes "patched wl t st"
  shows "outcome wl t (patch u kind word wl ws cn st)"
proof -
  obtain rep t' where st: "st = (rep, t')" by (cases st)
  from assms st obtain rs ls where
    t': "t' = t\<lparr>ReplaceResources := ReplaceResources t @ rs, RelatedPodLabels := RelatedPodLabels t @ ls\<rparr>"
    and rep: "rep \<longleftrightarrow> rs \<noteq> []" and ls: "\<not> wl \<longrightarrow> ls = []"
    by (auto simp: patched_def)
  show ?thesis
  proof (cases "scanWorkloads cn ws")
    case None
    with assms show ?thesis by (simp add: patch_def outcome_def)
  next
    case (Some wc)
    obtain w c where wc: "wc = (w, c)" by (cases wc)
    show ?thesis
    proof (cases "u (w_Namespace w) (w_Name w) cn (TaskImage t')")
      case (Some e)
      with assms st \<open>scanWorkloads cn ws = Some wc\<close> wc show ?thesis
        by (auto simp: patch_def outcome_def)
    next
      case None
      let ?r = "\<lparr>r_Kind = kind, r_Container = c_Name c, r_Origin = c_Image c,
                 r_Name = w_Name w, r_PodOwnerUID = ''''\<rparr>"
      let ?ls = "if wl then ls @ [w_TemplateLabels w] else ls"
      have "patch u kind word wl ws cn st
            = Inr (True, t\<lparr>ReplaceResources := ReplaceResources t @ (rs @ [?r]),
                            RelatedPodLabels := RelatedPodLabels t @ ?ls\<rparr>)"
        using None \<open>scanWorkloads cn ws = Some wc\<close> wc st t' ls by (simp add: patch_def)
      moreover have "patched wl t (True, t\<lparr>ReplaceResources := ReplaceResources t @ (rs @ [?r]),
                            RelatedPodLabels := RelatedPodLabels t @ ?ls\<rparr>)"
        unfolding patched_def using ls by (intro exI [of _ "rs @ [?r]"] exI [of _ ?ls]) simp
      ultimately show ?thesis by (simp add: outcome_def)
    qed
  qed
qed

lemma andThen_outcome:
  assumes "outcome wl t r" and "\<And>st. patched wl t st \<Longrightarrow> outcome wl t (f st)"
  shows "outcome wl t (andThen r f)"
proof (cases r)
  case (Inl x)
  with assms(1) show ?thesis by (simp add: andThen_def)
next
  case (Inr st)
  with assms(1) have "patched wl t st" by (simp add: outcome_def)
  then have "outcome wl t (f st)" by (rule assms(2))
  with Inr show ?thesis by (simp add: andThen_def)
qed

lemma outcome_Inl: "outcome wl t (Inl (e, t))"
  by (auto simp: outcome_def intro: patched_refl)

lemma outcome_Inr: "patched wl t st \<Longrightarrow> outcome wl t (Inr st)"
  by (simp add: outcome_def)

lemma Run_unknown_outcome: "outcome True t (Run_unknown env ver cn t)"
proof (cases "snd (fetchRelatedWorkloads env (EnvName t) (Namespace t) (ProductName t) (ServiceName t) ver)")
  case (Inl e)
  then show ?thesis by (simp add: Run_unknown_def outcome_Inl)
next
  case (Inr ws)
  obtain ds ss cs bs where ws: "ws = (ds, ss, cs, bs)" by (cases ws) auto
  show ?thesis
    unfolding Run_unknown_def Inr ws
    by (simp, intro andThen_outcome patch_outcome patched_refl)
qed

lemma Run_known_outcome: "outcome False t (Run_known env ver wt cn t)"
proof -
  have cron: "outcome False t
      (andThen (case cj of None \<Rightarrow> Inr (False, t)
                | Some c \<Rightarrow> patch u kind word False [c] cn (False, t))
         (\<lambda>s1. case cb of None \<Rightarrow> Inr s1 | Some c \<Rightarrow> patch u kind word False [c] cn s1))"
    for cj cb u kind word
    by (intro andThen_outcome)
      (auto split: option.splits intro: patch_outcome patched_refl outcome_Inr)
  show ?thesis
    unfolding Run_known_def
    by (auto split: got.splits prod.splits intro: patch_outcome patched_refl outcome_Inl outcome_Inr cron)
qed

lemma Run_mutate_shape:
  "\<exists>rs ls. snd (Run_mutate env ver t)
             = t\<lparr>ReplaceResources := ReplaceResources t @ rs, RelatedPodLabels := RelatedPodLabels t @ ls\<rparr>
           \<and> (fst (Run_mutate env ver t) = None \<longrightarrow> rs \<noteq> [])"
proof (cases "getService env (ServiceName t) (ServiceType t) (ProductName t) 0")
  case (Inl e)
  then have "Run_mutate env ver t = (Some e, t)" by (simp add: Run_mutate_def)
  then show ?thesis by (intro exI [of _ "[]"]) simp
next
  case (Inr serviceInfo)
  define r where "r = (if WorkloadType serviceInfo = '''' then Run_unknown env ver (strippedName t) t
                       else Run_known env ver (WorkloadType serviceInfo) (strippedName t) t)"
  have "outcome True t r \<or> outcome False t r"
    unfolding r_def using Run_unknown_outcome Run_known_outcome by simp
  then obtain wl where out: "outcome wl t r" by blast
  have eq: "Run_mutate env ver t =
      (case r of Inl (e, t') \<Rightarrow> (Some e, t')
       | Inr (replaced, t') \<Rightarrow>
           if \<not> replaced then (Some (containerNotFound (strippedName t)), t') else (None, t'))"
    by (simp add: Run_mutate_def Inr r_def Let_def)
  show ?thesis
  proof (cases r)
    case (Inl x)
    obtain e t' where x: "x = (e, t')" by (cases x)
    from out Inl x obtain b where "patched wl t (b, t')" by (auto simp: outcome_def)
    then obtain rs ls where t': "t' = t\<lparr>ReplaceResources := ReplaceResources t @ rs,
                       RelatedPodLabels := RelatedPodLabels t @ ls\<rparr>"
      by (auto simp: patched_def)
    from eq Inl x have "Run_mutate env ver t = (Some e, t')" by simp
    with t' show ?thesis by (intro exI [of _ rs] exI [of _ ls]) simp
  next
    case (Inr st)
    obtain replaced t' where st: "st = (replaced, t')" by (cases st)
    from out Inr st have "patched wl t (replaced, t')" by (simp add: outcome_def)
    then obtain rs ls where t': "t' = t\<lparr>ReplaceResources := ReplaceResources t @ rs,
                       RelatedPodLabels := RelatedPodLabels t @ ls\<rparr>" and rep: "replaced \<longleftrightarrow> rs \<noteq> []"
      by (auto simp: patched_def)
    from eq Inr st have "Run_mutate env ver t
        = (if \<not> replaced then (Some (containerNotFound (strippedName t)), t') else (None, t'))"
      by simp
    with t' rep show ?thesis by (intro exI [of _ rs] exI [of _ ls]) (simp split: if_splits)
  qed
qed

lemma Run_connect_returned:
  "Run_connect env = ((errs, cs), True) \<Longrightarrow> \<exists>e. last (None # errs) = Some e"
  by (auto simp: Run_connect_def split: if_splits option.splits prod.splits)

lemma Run_body_cases:
  "(\<exists>err. Run_body env t = (err, t) \<and> (err = None \<longrightarrow> Run_panics env t))
   \<or> (\<exists>ver. Run_body env t = Run_mutate env ver t)"
proof (cases "Run_connect env")
  case (Pair a returned)
  obtain errs cs where a: "a = (errs, cs)" by (cases a)
  show ?thesis
  proof (cases returned)
    case True
    with Pair a have "\<exists>e. last (None # errs) = Some e" by (intro Run_connect_returned) simp
    moreover from Pair a True have "Run_flow env t = (Returned, errs, t)" by (simp add: Run_flow_def)
    ultimately show ?thesis by (auto simp: Run_body_def Run_errs_def)
  next
    case False
    show ?thesis
    proof (cases cs)
      case None
      with Pair a False have "Run_flow env t = (Panicked, errs, t)" by (simp add: Run_flow_def)
      then show ?thesis by (simp add: Run_body_def Run_errs_def Run_panics_def)
    next
      case (Some clientSet)
      show ?thesis
      proof (cases "Discovery_ServerVersion clientSet")
        case (Inl ev)
        with Pair a False Some show ?thesis
          by (simp add: Run_body_def Run_errs_def Run_flow_def)
      next
        case (Inr ver)
        obtain err t' where m: "Run_mutate env ver t = (err, t')" by (cases "Run_mutate env ver t")
        show ?thesis
        proof (cases "GetProductInfo env (EnvName t) (ProductName t)")
          case (Inl e)
          with Pair a False Some Inr show ?thesis
            by (simp add: Run_body_def Run_errs_def Run_flow_def)
        next
          case sl: (Inr sleeping)
          show ?thesis
          proof (cases sleeping)
            case True
            with Pair a False Some Inr sl show ?thesis
              by (simp add: Run_body_def Run_errs_def Run_flow_def)
          next
            case nsl: False
            from Pair a False Some Inr sl nsl m have "Run_body env t = Run_mutate env ver t"
              by (simp add: Run_body_def Run_errs_def Run_flow_def)
            then show ?thesis by blast
          qed
        qed
      qed
    qed
  qed
qed

lemma Run_body_shape:
  "\<exists>rs ls. snd (Run_body env t)
             = t\<lparr>ReplaceResources := ReplaceResources t @ rs, RelatedPodLabels := RelatedPodLabels t @ ls\<rparr>
           \<and> (fst (Run_body env t) = None \<longrightarrow> rs \<noteq> [] \<or> Run_panics env t)"
proof -
  from Run_body_cases [of env t]
  consider ver where "Run_body env t = Run_mutate env ver t"
    | err where "Run_body env t = (err, t)" "err = None \<longrightarrow> Run_panics env t"
    by blast
  then show ?thesis
  proof cases
    case 1
    from Run_mutate_shape [of env ver t] show ?thesis
    proof (elim exE conjE)
      fix rs ls
      assume s: "snd (Run_mutate env ver t)
          = t\<lparr>ReplaceResources := ReplaceResources t @ rs, RelatedPodLabels := RelatedPodLabels t @ ls\<rparr>"
        and n: "fst (Run_mutate env ver t) = None \<longrightarrow> rs \<noteq> []"
      show ?thesis
        unfolding 1 using s n by (intro exI [of _ rs] exI [of _ ls]) simp
    qed
  next
    case 2
    then show ?thesis by (intro exI [of _ "[]"]) simp
  qed
qed

lemma Run_unknown_no_match:
  assumes "snd (fetchRelatedWorkloads env (EnvName t) (Namespace t) (ProductName t) (ServiceName t) ver)
             = Inr (ds, ss, cs, bs)"
    and "\<forall>w\<in>set (ds @ ss @ cs @ bs). \<forall>c\<in>set (w_Containers w). c_Name c \<noteq> cn"
  shows "Run_unknown env ver cn t = Inr (False, t)"
proof -
  from assms(2) have "scanWorkloads cn ds = None" "scanWorkloads cn ss = None"
    "scanWorkloads cn cs = None" "scanWorkloads cn bs = None"
    by (auto simp: scanWorkloads_None_iff)
  then show ?thesis
    by (simp add: Run_unknown_def assms(1) andThen_def patch_no_match)
qed

lemma patch_single_no_match:
  "\<forall>c\<in>set (w_Containers w). c_Name c \<noteq> cn \<Longrightarrow> patch u kind word wl [w] cn st = Inr st"
  by (rule patch_no_match) (simp add: scanContainers_None_iff [THEN iffD2])
lemma Run_known_no_match:
  assumes "getService env (ServiceName t) (ServiceType t) (ProductName t) 0 = Inr svc"
    and "WorkloadType svc \<noteq> ''''"
    and "discovered env ver t = Some ws"
    and "\<forall>w\<in>set ws. \<forall>c\<in>set (w_Containers w). c_Name c \<noteq> cn"
  shows "Run_known env ver (WorkloadType svc) cn t = Inr (False, t)"
  using assms
  by (auto simp: discovered_def Run_known_def andThen_def patch_single_no_match
      split: got.splits option.splits if_splits)

lemma Run_mutate_no_match:
  assumes "discovered env ver t = Some ws"
    and "\<forall>w\<in>set ws. \<forall>c\<in>set (w_Containers w). c_Name c \<noteq> strippedName t"
  shows "Run_mutate env ver t = (Some (containerNotFound (strippedName t)), t)"
proof (cases "getService env (ServiceName t) (ServiceType t) (ProductName t) 0")
  case (Inl e)
  with assms(1) show ?thesis by (simp add: discovered_def)
next
  case (Inr svc)
  show ?thesis
  proof (cases "WorkloadType svc = ''''")
    case True
    with assms(1) Inr obtain ds ss cs bs where
      f: "snd (fetchRelatedWorkloads env (EnvName t) (Namespace t) (ProductName t) (ServiceName t) ver)
            = Inr (ds, ss, cs, bs)" and ws: "ws = ds @ ss @ cs @ bs"
      by (auto simp: discovered_def split: sum.splits)
    from Run_unknown_no_match [OF f] assms(2) ws
    have "Run_unknown env ver (strippedName t) t = Inr (False, t)" by simp
    with Inr True show ?thesis by (simp add: Run_mutate_def)
  next
    case False
    from Run_known_no_match [OF Inr False assms]
    have "Run_known env ver (WorkloadType svc) (strippedName t) t = Inr (False, t)" .
    with Inr False show ?thesis by (simp add: Run_mutate_def)
  qed
qed
lemma Run_body_reaches_mutate:
  assumes "snd (Run_connect env) = False"
    and "Run_clientSet env = Some cs" and "Discovery_ServerVersion cs = Inr ver"
    and "GetProductInfo env (EnvName t) (ProductName t) = Inr False"
  shows "Run_body env t = Run_mutate env ver t" and "\<not> Run_panics env t"
proof -
  from assms(1,2) obtain errs where c: "Run_connect env = ((errs, Some cs), False)"
    by (cases "Run_connect env") (auto simp: Run_clientSet_def)
  obtain err t' where m: "Run_mutate env ver t = (err, t')" by (cases "Run_mutate env ver t")
  from c m assms(3,4) have f: "Run_flow env t = (Returned, errs @ [None, err], t')"
    by (simp add: Run_flow_def)
  from f m show "Run_body env t = Run_mutate env ver t" by (simp add: Run_body_def Run_errs_def)
  from f show "\<not> Run_panics env t" by (simp add: Run_panics_def)
qed

subsection \<open>No matching container\<close>

text \<open>
  Claim C4. When \<open>Run\<close> gets as far as scanning (the clients, the server version and the
  product are obtained, the product is not sleeping, the workloads are resolved) and
  no container of any workload it looks at has the stripped container name, \<open>Run\<close>
  ends with the error "container ... is not found in resources", which the deferred
  function turns into status \<open>Failed\<close>, and the task is otherwise unchanged: nothing is
  appended to \<open>ReplaceResources\<close>. For every run: either at least one resource was
  appended, or \<open>Run\<close> failed and none was, or \<open>Run\<close> did not complete (it panicked on a
  \<open>nil\<close> clientset) and none was.
\<close>

theorem no_container_match_fails:
  "(snd (Run_connect env) = False
      \<and> Run_clientSet env = Some cs \<and> Discovery_ServerVersion cs = Inr ver
      \<and> GetProductInfo env (EnvName t) (ProductName t) = Inr False
      \<and> discovered env ver t = Some ws
      \<and> (\<forall>w\<in>set ws. \<forall>c\<in>set (w_Containers w). c_Name c \<noteq> strippedName t)
    \<longrightarrow> Run_body env t = (Some (containerNotFound (strippedName t)), t)
        \<and> Run env t = t\<lparr>TaskStatus := StatusFailed, Error := containerNotFound (strippedName t)\<rparr>)
   \<and> ((\<exists>rs. rs \<noteq> [] \<and> ReplaceResources (Run env t) = ReplaceResources t @ rs)
       \<or> (fst (Run_body env t) \<noteq> None \<and> TaskStatus (Run env t) = StatusFailed
           \<and> ReplaceResources (Run env t) = ReplaceResources t)
       \<or> (Run_panics env t \<and> ReplaceResources (Run env t) = ReplaceResources t))"
proof (intro conjI impI)
  assume h: "snd (Run_connect env) = False
      \<and> Run_clientSet env = Some cs \<and> Discovery_ServerVersion cs = Inr ver
      \<and> GetProductInfo env (EnvName t) (ProductName t) = Inr False
      \<and> discovered env ver t = Some ws
      \<and> (\<forall>w\<in>set ws. \<forall>c\<in>set (w_Containers w). c_Name c \<noteq> strippedName t)"
  from h have a1: "snd (Run_connect env) = False" by blast
  from h have a2: "Run_clientSet env = Some cs" "Discovery_ServerVersion cs = Inr ver" by blast+
  from h have a3: "GetProductInfo env (EnvName t) (ProductName t) = Inr False" by blast
  from h have a4: "discovered env ver t = Some ws" by blast
  from h have a5: "\<forall>w\<in>set ws. \<forall>c\<in>set (w_Containers w). c_Name c \<noteq> strippedName t" by blast
  have "Run_body env t = Run_mutate env ver t"
    using a1 a2 a3 by (rule Run_body_reaches_mutate)
  also have "\<dots> = (Some (containerNotFound (strippedName t)), t)"
    using a4 a5 by (rule Run_mutate_no_match)
  finally show b: "Run_body env t = (Some (containerNotFound (strippedName t)), t)" .
  show "Run env t = t\<lparr>TaskStatus := StatusFailed, Error := containerNotFound (strippedName t)\<rparr>"
    unfolding Run_def b by (simp add: Run_deferred_def)
next
  from Run_body_shape [of env t]
  show "(\<exists>rs. rs \<noteq> [] \<and> ReplaceResources (Run env t) = ReplaceResources t @ rs)
       \<or> (fst (Run_body env t) \<noteq> None \<and> TaskStatus (Run env t) = StatusFailed
           \<and> ReplaceResources (Run env t) = ReplaceResources t)
       \<or> (Run_panics env t \<and> ReplaceResources (Run env t) = ReplaceResources t)"
  proof (elim exE conjE)
    fix rs ls
    assume s: "snd (Run_body env t)
          = t\<lparr>ReplaceResources := ReplaceResources t @ rs, RelatedPodLabels := RelatedPodLabels t @ ls\<rparr>"
      and n: "fst (Run_body env t) = None \<longrightarrow> rs \<noteq> [] \<or> Run_panics env t"
    have "ReplaceResources (Run env t) = ReplaceResources (snd (Run_body env t))"
      by (simp add: Run_def Run_deferred_def split: option.splits)
    with s have rr: "ReplaceResources (Run env t) = ReplaceResources t @ rs"
      by simp
    show ?thesis
    proof (cases "rs = []")
      case False
      with rr show ?thesis by blast
    next
      case True
      with rr have same: "ReplaceResources (Run env t) = ReplaceResources t" by simp
      show ?thesis
      proof (cases "fst (Run_body env t)")
        case None
        with n True have "Run_panics env t" by simp
        with same show ?thesis by simp
      next
        case (Some e)
        then have "TaskStatus (Run env t) = StatusFailed" by (simp add: Run_def Run_deferred_def)
        with same Some show ?thesis by simp
      qed
    qed
  qed
qed

text \<open>The scenario with the container identity \<open>worker_myservice\<close>: the Deployment has
  the containers \<open>sidecar\<close> and \<open>api\<close>, none is called \<open>worker\<close>.\<close>

theorem no_container_match_fails_witness:
  "snd (Run_connect demoEnv) = False
   \<and> Run_clientSet demoEnv = Some \<lparr>Discovery_ServerVersion = Inr ''v1.22''\<rparr>
   \<and> Discovery_ServerVersion \<lparr>Discovery_ServerVersion = Inr ''v1.22''\<rparr> = Inr ''v1.22''
   \<and> GetProductInfo demoEnv (EnvName workerTask) (ProductName workerTask) = Inr False
   \<and> discovered demoEnv ''v1.22'' workerTask = Some [demoWorkload]
   \<and> c_Name (w_Containers demoWorkload ! 0) \<noteq> strippedName workerTask
   \<and> c_Name (w_Containers demoWorkload ! 1) \<noteq> strippedName workerTask
   \<and> length (w_Containers demoWorkload) = 2
   \<and> Run demoEnv workerTask
       = workerTask\<lparr>TaskStatus := StatusFailed, Error := ''container worker is not found in resources ''\<rparr>"
proof -
  have h: "snd (Run_connect demoEnv) = False
      \<and> Run_clientSet demoEnv = Some \<lparr>Discovery_ServerVersion = Inr ''v1.22''\<rparr>
      \<and> Discovery_ServerVersion \<lparr>Discovery_ServerVersion = Inr ''v1.22''\<rparr> = Inr ''v1.22''
      \<and> GetProductInfo demoEnv (EnvName workerTask) (ProductName workerTask) = Inr False
      \<and> discovered demoEnv ''v1.22'' workerTask = Some [demoWorkload]
      \<and> (\<forall>w\<in>set [demoWorkload]. \<forall>c\<in>set (w_Containers w). c_Name c \<noteq> strippedName workerTask)"
    by (simp add: Run_connect_def Run_clientSet_def demoEnv_def demoKube_def emptyKube_def discovered_def
        getService_def workerTask_def demoTask_def demoWorkload_def strippedName_def TrimSuffix_def
        setting_Deployment_def setting_StatefulSet_def)
  from no_container_match_fails
         [of demoEnv "\<lparr>Discovery_ServerVersion = Inr ''v1.22''\<rparr>" "''v1.22''" workerTask "[demoWorkload]"] h
  have "Run demoEnv workerTask
      = workerTask\<lparr>TaskStatus := StatusFailed, Error := containerNotFound (strippedName workerTask)\<rparr>"
    by blast
  moreover have "containerNotFound (strippedName workerTask) = ''container worker is not found in resources ''"
    by (simp add: containerNotFound_def strippedName_def TrimSuffix_def workerTask_def demoTask_def)
  moreover have "c_Name (w_Containers demoWorkload ! 0) \<noteq> strippedName workerTask
     \<and> c_Name (w_Containers demoWorkload ! 1) \<noteq> strippedName workerTask
     \<and> length (w_Containers demoWorkload) = 2"
    by (simp add: demoWorkload_def strippedName_def TrimSuffix_def workerTask_def demoTask_def)
  ultimately show ?thesis using h by simp
qed

subsection \<open>The error slot of Run\<close>









subsection \<open>Errors of the setup of Wait\<close>

text \<open>
  Claim C9 (the code departs from it). The Deployment cannot be read while \<open>Wait\<close>
  computes the pod owners: \<open>Wait\<close> stores the message in \<open>Error\<close> and returns without
  assigning a status. The task stays \<open>Running\<close>, which is not a terminal status.
\<close>

theorem setup_error_leaves_status:
  "map_option Error (Wait setupFailEnv trackedTask)
     = Some ''get resource owner info error: connection refused''
   \<and> map_option TaskStatus (Wait setupFailEnv trackedTask) = Some StatusRunning
   \<and> map_option IsTaskDone (Wait setupFailEnv trackedTask) = Some False
   \<and> map_option IsTaskFailed (Wait setupFailEnv trackedTask) = Some False"
  by code_simp

subsection \<open>Pod labels in the known-type path\<close>

lemma outcome_False_labels:
  assumes "outcome False t r"
  shows "RelatedPodLabels (case r of Inl (e, t') \<Rightarrow> t' | Inr (b, t') \<Rightarrow> t') = RelatedPodLabels t"
proof (cases r)
  case (Inl x)
  obtain e t' where x: "x = (e, t')" by (cases x)
  from assms Inl x obtain b where "patched False t (b, t')" by (auto simp: outcome_def)
  then have "RelatedPodLabels t' = RelatedPodLabels t" by (auto simp: patched_def)
  with Inl x show ?thesis by simp
next
  case (Inr st)
  obtain b t' where st: "st = (b, t')" by (cases st)
  from assms Inr st have "patched False t (b, t')" by (simp add: outcome_def)
  then have "RelatedPodLabels t' = RelatedPodLabels t" by (auto simp: patched_def)
  with Inr st show ?thesis by simp
qed

lemma Run_mutate_known_labels:
  assumes "getService env (ServiceName t) (ServiceType t) (ProductName t) 0 = Inr svc"
    and "WorkloadType svc \<noteq> ''''"
  shows "RelatedPodLabels (snd (Run_mutate env ver t)) = RelatedPodLabels t"
proof -
  let ?r = "Run_known env ver (WorkloadType svc) (strippedName t) t"
  have "snd (Run_mutate env ver t) = (case ?r of Inl (e, t') \<Rightarrow> t' | Inr (b, t') \<Rightarrow> t')"
    using assms by (simp add: Run_mutate_def split: sum.splits prod.splits)
  moreover have "outcome False t ?r" by (rule Run_known_outcome)
  ultimately show ?thesis using outcome_False_labels [of t ?r] by simp
qed

lemma Run_labels_snd: "RelatedPodLabels (Run env t) = RelatedPodLabels (snd (Run_body env t))"
  by (simp add: Run_def Run_deferred_def split: option.splits)

lemma workLoadDeployStat_no_labels: "workLoadDeployStat k ns [] uid = None"
  by simp

lemma pollLoop_no_labels:
  "RelatedPodLabels t = [] \<Longrightarrow> pollLoop k t rs st \<noteq> Inl e"
proof (induction rs arbitrary: st)
  case Nil
  then show ?case by (cases st) simp
next
  case (Cons r rs)
  obtain ready err where st: "st = (ready, err)" by (cases st)
  from Cons show ?case
    unfolding st by (simp add: Let_def)
qed

lemma pollTick_no_labels:
  assumes "RelatedPodLabels t = []"
  shows "pollTick k t = (t, False) \<or> pollTick k t = (t, True)
         \<or> pollTick k t = (t\<lparr>TaskStatus := StatusPassed\<rparr>, True)"
proof (cases "pollLoop k t (ReplaceResources t) (True, None)")
  case (Inl e)
  with pollLoop_no_labels [OF assms] show ?thesis by blast
next
  case (Inr ready)
  then show ?thesis by (cases ready) (auto simp: pollTick_def IsTaskDone_def Let_def)
qed

lemma waitLoop_no_labels:
  "RelatedPodLabels t = [] \<Longrightarrow>
   \<exists>s. waitLoop kt ts t = t\<lparr>TaskStatus := s\<rparr>
       \<and> (s = TaskStatus t \<or> s = StatusPassed \<or> s = StatusTimeout \<or> s = StatusCancelled)"
proof (induction ts arbitrary: t)
  case Nil
  then show ?case by (intro exI [of _ StatusTimeout]) (simp add: onTimeout_def)
next
  case (Cons a ts)
  show ?case
  proof (cases a)
    case CtxDone
    then show ?thesis by (intro exI [of _ StatusCancelled]) simp
  next
    case (Poll k)
    from pollTick_no_labels [OF Cons.prems, of k]
    consider "pollTick k t = (t, False)" | "pollTick k t = (t, True)"
      | "pollTick k t = (t\<lparr>TaskStatus := StatusPassed\<rparr>, True)" by blast
    then show ?thesis
    proof cases
      case 1
      with Poll Cons.IH [OF Cons.prems] show ?thesis by simp
    next
      case 2
      with Poll show ?thesis by (intro exI [of _ "TaskStatus t"]) simp
    next
      case 3
      with Poll show ?thesis by (intro exI [of _ StatusPassed]) simp
    qed
  qed
qed

lemma Wait_no_labels:
  assumes "RelatedPodLabels t = []" and "Wait wenv t = Some t'"
  shows "(Error t' = Error t \<or> (\<exists>e. Error t' = ''get resource owner info error: '' @ e))
         \<and> (TaskStatus t' = StatusFailed \<longrightarrow> TaskStatus t = StatusFailed)
         \<and> RelatedPodLabels t' = []"
proof (cases "SkipWaiting t")
  case True
  with assms show ?thesis by (auto simp: Wait_def)
next
  case False
  let ?t = "TaskTimeout (DeployTimeout wenv) t"
  have t1: "Error ?t = Error t" "TaskStatus ?t = TaskStatus t" "RelatedPodLabels ?t = []"
    using assms(1) by (simp_all add: TaskTimeout_def)
  show ?thesis
  proof (cases "snd (getResourcesPodOwnerUID (atSetup wenv) (sortSlice wenv) ?t)")
    case None
    with False assms(2) show ?thesis by (simp add: Wait_def Let_def)
  next
    case (Some res)
    obtain resources err where res: "res = (resources, err)" by (cases res)
    show ?thesis
    proof (cases err)
      case (Some e)
      with False assms(2) \<open>snd (getResourcesPodOwnerUID (atSetup wenv) (sortSlice wenv) ?t) = Some res\<close> res
      have "t' = ?t\<lparr>Error := ''get resource owner info error: '' @ e\<rparr>"
        by (simp add: Wait_def Let_def)
      with t1 show ?thesis by simp
    next
      case None
      let ?u = "?t\<lparr>ReplaceResources := resources\<rparr>"
      from None False assms(2) \<open>snd (getResourcesPodOwnerUID (atSetup wenv) (sortSlice wenv) ?t) = Some res\<close> res
      have t': "t' = waitLoop (atTimeout wenv) (ticks wenv) ?u"
        by (simp add: Wait_def Let_def)
      have "RelatedPodLabels ?u = []" using t1 by simp
      from waitLoop_no_labels [OF this, of "atTimeout wenv" "ticks wenv"] t'
      obtain s where "t' = ?u\<lparr>TaskStatus := s\<rparr>"
        and "s = TaskStatus ?u \<or> s = StatusPassed \<or> s = StatusTimeout \<or> s = StatusCancelled"
        by auto
      with t1 show ?thesis by auto
    qed
  qed
qed

text \<open>
  Claim C10. When the service has a workload type (the getter path of \<open>Run\<close>), \<open>Run\<close>
  appends nothing to \<open>RelatedPodLabels\<close>. If the list was empty before, then in the
  following \<open>Wait\<close> the pod check of every pass (\<open>workLoadDeployStat\<close>) finds nothing and
  the loop over the resources never fails through it, the scan of the timeout case
  collects nothing and leaves \<open>Error\<close> as it is, and \<open>Wait\<close> as a whole neither sets
  \<open>Failed\<close> nor writes a pod message into \<open>Error\<close> (only the error of its setup can
  appear there).
\<close>

theorem known_type_leaves_pod_scans_empty:
  "getService env (ServiceName t) (ServiceType t) (ProductName t) 0 = Inr svc \<and> WorkloadType svc \<noteq> ''''
   \<longrightarrow> RelatedPodLabels (Run env t) = RelatedPodLabels t
       \<and> (RelatedPodLabels t = [] \<longrightarrow>
            workLoadDeployStat k ns (RelatedPodLabels (Run env t)) uid = None
            \<and> pollLoop k (Run env t) rs st \<noteq> Inl e
            \<and> timeoutScan k ns (RelatedPodLabels (Run env t)) [] = Inr []
            \<and> onTimeout k (Run env t) = (Run env t)\<lparr>TaskStatus := StatusTimeout\<rparr>
            \<and> (Wait wenv (Run env t) = Some t' \<longrightarrow>
                  (Error t' = Error (Run env t) \<or> (\<exists>e'. Error t' = ''get resource owner info error: '' @ e'))
                  \<and> (TaskStatus t' = StatusFailed \<longrightarrow> TaskStatus (Run env t) = StatusFailed)))"
proof (intro impI)
  assume h: "getService env (ServiceName t) (ServiceType t) (ProductName t) 0 = Inr svc
             \<and> WorkloadType svc \<noteq> ''''"
  then have g: "getService env (ServiceName t) (ServiceType t) (ProductName t) 0 = Inr svc"
    and w: "WorkloadType svc \<noteq> ''''" by blast+
  have "RelatedPodLabels (snd (Run_body env t)) = RelatedPodLabels t"
    using Run_body_cases [of env t]
  proof (elim disjE exE conjE)
    fix err assume "Run_body env t = (err, t)"
    then show ?thesis by simp
  next
    fix ver assume "Run_body env t = Run_mutate env ver t"
    with Run_mutate_known_labels [OF g w] show ?thesis by simp
  qed
  then have same: "RelatedPodLabels (Run env t) = RelatedPodLabels t"
    by (simp add: Run_labels_snd)
  show "RelatedPodLabels (Run env t) = RelatedPodLabels t
       \<and> (RelatedPodLabels t = [] \<longrightarrow>
            workLoadDeployStat k ns (RelatedPodLabels (Run env t)) uid = None
            \<and> pollLoop k (Run env t) rs st \<noteq> Inl e
            \<and> timeoutScan k ns (RelatedPodLabels (Run env t)) [] = Inr []
            \<and> onTimeout k (Run env t) = (Run env t)\<lparr>TaskStatus := StatusTimeout\<rparr>
            \<and> (Wait wenv (Run env t) = Some t' \<longrightarrow>
                  (Error t' = Error (Run env t) \<or> (\<exists>e'. Error t' = ''get resource owner info error: '' @ e'))
                  \<and> (TaskStatus t' = StatusFailed \<longrightarrow> TaskStatus (Run env t) = StatusFailed)))"
  proof (intro conjI impI)
    show "RelatedPodLabels (Run env t) = RelatedPodLabels t" by (rule same)
  next
    assume "RelatedPodLabels t = []"
    with same have e: "RelatedPodLabels (Run env t) = []" by simp
    show "workLoadDeployStat k ns (RelatedPodLabels (Run env t)) uid = None" by (simp add: e)
    show "pollLoop k (Run env t) rs st \<noteq> Inl e" by (rule pollLoop_no_labels [OF e])
    show "timeoutScan k ns (RelatedPodLabels (Run env t)) [] = Inr []" by (simp add: e)
    show "onTimeout k (Run env t) = (Run env t)\<lparr>TaskStatus := StatusTimeout\<rparr>"
      by (simp add: onTimeout_def e)
    assume "Wait wenv (Run env t) = Some t'"
    from Wait_no_labels [OF e this]
    show "Error t' = Error (Run env t) \<or> (\<exists>e'. Error t' = ''get resource owner info error: '' @ e')"
      and "TaskStatus t' = StatusFailed \<Longrightarrow> TaskStatus (Run env t) = StatusFailed"
      by blast+
  qed
qed

text \<open>The scenario of the spec: the service is a Deployment, \<open>Run\<close> patches it and records
  no labels; a pod in \<open>CrashLoopBackOff\<close> owned by the rollout goes unseen.\<close>

theorem known_type_leaves_pod_scans_empty_witness:
  "getService demoEnv (ServiceName demoTask) (ServiceType demoTask) (ProductName demoTask) 0
     = Inr \<lparr>WorkloadType = ''Deployment''\<rparr>
   \<and> WorkloadType \<lparr>WorkloadType = ''Deployment''\<rparr> \<noteq> ''''
   \<and> RelatedPodLabels demoTask = []
   \<and> RelatedPodLabels (Run demoEnv demoTask) = []
   \<and> workLoadDeployStat podsKube ''ns'' (RelatedPodLabels (Run demoEnv demoTask)) ''uid-db'' = None
   \<and> onTimeout podsKube (Run demoEnv demoTask) = (Run demoEnv demoTask)\<lparr>TaskStatus := StatusTimeout\<rparr>"
proof -
  have h: "getService demoEnv (ServiceName demoTask) (ServiceType demoTask) (ProductName demoTask) 0
             = Inr \<lparr>WorkloadType = ''Deployment''\<rparr>
           \<and> WorkloadType \<lparr>WorkloadType = ''Deployment''\<rparr> \<noteq> ''''"
    by (simp add: getService_def demoEnv_def)
  have l: "RelatedPodLabels demoTask = []" by (simp add: demoTask_def)
  from known_type_leaves_pod_scans_empty
         [of demoEnv demoTask "\<lparr>WorkloadType = ''Deployment''\<rparr>" podsKube "''ns''" "''uid-db''"] h l
  have "RelatedPodLabels (Run demoEnv demoTask) = RelatedPodLabels demoTask
        \<and> workLoadDeployStat podsKube ''ns'' (RelatedPodLabels (Run demoEnv demoTask)) ''uid-db'' = None
        \<and> onTimeout podsKube (Run demoEnv demoTask) = (Run demoEnv demoTask)\<lparr>TaskStatus := StatusTimeout\<rparr>"
    by blast
  with h l show ?thesis by simp
qed

subsection \<open>Readiness and Passed\<close>

lemma pollLoop_True_ready:
  "pollLoop k t rs st = Inr True \<Longrightarrow> \<forall>r\<in>set rs. resourceReady k (Namespace t) r"
proof (induction rs arbitrary: st)
  case Nil
  show ?case by simp
next
  case (Cons r rs)
  obtain ready err where st: "st = (ready, err)" by (cases st)
  from Cons.prems have ws: "workLoadDeployStat k (Namespace t) (RelatedPodLabels t) (r_PodOwnerUID r) = None"
    unfolding st by (cases "workLoadDeployStat k (Namespace t) (RelatedPodLabels t) (r_PodOwnerUID r)") simp_all
  consider (dep) "r_Kind r = setting_Deployment"
    | (sts) "r_Kind r \<noteq> setting_Deployment" "r_Kind r = setting_StatefulSet"
    | (other) "r_Kind r \<noteq> setting_Deployment" "r_Kind r \<noteq> setting_StatefulSet" by blast
  then show ?case
  proof cases
    case dep
    with Cons.prems ws obtain d where d: "GetDeployment k (Namespace t) (r_Name r) = Found d"
        "Deployment_Ready d" and rest: "pollLoop k t rs (True, err) = Inr True"
      unfolding st by (cases "GetDeployment k (Namespace t) (r_Name r)") (auto simp: Let_def split: if_splits)
    from d dep have "resourceReady k (Namespace t) r" by (simp add: resourceReady_def)
    with Cons.IH [OF rest] show ?thesis by simp
  next
    case sts
    with Cons.prems ws obtain s where s: "GetStatefulSet k (Namespace t) (r_Name r) = Found s"
        "StatefulSet_Ready s" and rest: "pollLoop k t rs (True, err) = Inr True"
      unfolding st by (cases "GetStatefulSet k (Namespace t) (r_Name r)") (auto simp: Let_def split: if_splits)
    from s sts have "resourceReady k (Namespace t) r" by (simp add: resourceReady_def)
    with Cons.IH [OF rest] show ?thesis by simp
  next
    case other
    with Cons.prems ws have rest: "pollLoop k t rs (ready, err) = Inr True"
      unfolding st by simp
    from other have "resourceReady k (Namespace t) r" by (simp add: resourceReady_def)
    with Cons.IH [OF rest] show ?thesis by simp
  qed
qed

lemma pollTick_cases:
  "(\<exists>e. pollLoop k t (ReplaceResources t) (True, None) = Inl e
        \<and> pollTick k t = (t\<lparr>TaskStatus := StatusFailed, Error := e\<rparr>, True))
   \<or> (pollLoop k t (ReplaceResources t) (True, None) = Inr True
        \<and> pollTick k t = (t\<lparr>TaskStatus := StatusPassed\<rparr>, True))
   \<or> (pollLoop k t (ReplaceResources t) (True, None) = Inr False
        \<and> pollTick k t = (t, IsTaskDone t))"
proof (cases "pollLoop k t (ReplaceResources t) (True, None)")
  case (Inl e)
  then show ?thesis by (simp add: pollTick_def)
next
  case (Inr ready)
  then show ?thesis by (cases ready) (simp_all add: pollTick_def IsTaskDone_def)
qed

lemma pollTick_Passed_ready:
  assumes "TaskStatus (fst (pollTick k t)) = StatusPassed" and "TaskStatus t \<noteq> StatusPassed"
  shows "\<forall>r\<in>set (ReplaceResources t). resourceReady k (Namespace t) r"
  using pollTick_cases [of k t] assms pollLoop_True_ready [of k t "ReplaceResources t" "(True, None)"]
  by auto

lemma waitLoop_Passed_ready:
  "TaskStatus (waitLoop kt ts t) = StatusPassed \<Longrightarrow> TaskStatus t \<noteq> StatusPassed \<Longrightarrow>
   \<exists>k. Poll k \<in> set ts \<and> (\<forall>r\<in>set (ReplaceResources t). resourceReady k (Namespace t) r)"
proof (induction ts)
  case Nil
  then show ?case by (simp add: onTimeout_def split: sum.splits if_splits)
next
  case (Cons a ts)
  show ?case
  proof (cases a)
    case CtxDone
    with Cons.prems show ?thesis by simp
  next
    case (Poll k)
    from pollTick_cases [of k t] show ?thesis
    proof (elim disjE exE conjE)
      fix e assume "pollTick k t = (t\<lparr>TaskStatus := StatusFailed, Error := e\<rparr>, True)"
      with Poll Cons.prems show ?thesis by simp
    next
      assume "pollLoop k t (ReplaceResources t) (True, None) = Inr True"
      from pollLoop_True_ready [OF this] Poll show ?thesis by auto
    next
      assume p: "pollTick k t = (t, IsTaskDone t)"
      show ?thesis
      proof (cases "IsTaskDone t")
        case True
        with p Poll Cons.prems show ?thesis by simp
      next
        case False
        with p Poll Cons.prems have "TaskStatus (waitLoop kt ts t) = StatusPassed" by simp
        from Cons.IH [OF this Cons.prems(2)] show ?thesis by auto
      qed
    qed
  qed
qed

text \<open>
  Claim C8. A pass of the default case sets \<open>Passed\<close> only if every tracked Deployment
  and StatefulSet was found and ready in that pass; so \<open>Wait\<close>'s loop ends with \<open>Passed\<close>
  (not having started with it) only if on one of its passes all tracked resources were
  ready. Ready means: the observed generation has caught up with the generation, and
  the updated and the available replica counts equal the desired count. A StatefulSet
  with 3 desired, 3 updated and 2 available replicas is not ready.
\<close>

theorem passed_only_when_all_ready:
  "(TaskStatus (fst (pollTick k t)) = StatusPassed \<and> TaskStatus t \<noteq> StatusPassed
      \<longrightarrow> (\<forall>r\<in>set (ReplaceResources t). resourceReady k (Namespace t) r))
   \<and> (TaskStatus (waitLoop kt ts t) = StatusPassed \<and> TaskStatus t \<noteq> StatusPassed
      \<longrightarrow> (\<exists>k'. Poll k' \<in> set ts \<and> (\<forall>r\<in>set (ReplaceResources t). resourceReady k' (Namespace t) r)))
   \<and> (resourceReady k ns r \<and> r_Kind r = setting_Deployment
      \<longrightarrow> (\<exists>d. GetDeployment k ns (r_Name r) = Found d \<and> w_Generation d \<le> w_ObservedGeneration d
               \<and> w_UpdatedReplicas d = w_Replicas d \<and> w_AvailableReplicas d = w_Replicas d))
   \<and> (resourceReady k ns r \<and> r_Kind r = setting_StatefulSet
      \<longrightarrow> (\<exists>s. GetStatefulSet k ns (r_Name r) = Found s \<and> w_Generation s \<le> w_ObservedGeneration s
               \<and> w_UpdatedReplicas s = w_Replicas s \<and> w_AvailableReplicas s = w_Replicas s))
   \<and> (w_Replicas s = 3 \<and> w_UpdatedReplicas s = 3 \<and> w_AvailableReplicas s = 2
      \<longrightarrow> \<not> StatefulSet_Ready s)"
proof (intro conjI impI)
  assume "TaskStatus (fst (pollTick k t)) = StatusPassed \<and> TaskStatus t \<noteq> StatusPassed"
  then show "\<forall>r\<in>set (ReplaceResources t). resourceReady k (Namespace t) r"
    using pollTick_Passed_ready [of k t] by blast
next
  assume "TaskStatus (waitLoop kt ts t) = StatusPassed \<and> TaskStatus t \<noteq> StatusPassed"
  then show "\<exists>k'. Poll k' \<in> set ts \<and> (\<forall>r\<in>set (ReplaceResources t). resourceReady k' (Namespace t) r)"
    using waitLoop_Passed_ready [of kt ts t] by blast
next
  assume "resourceReady k ns r \<and> r_Kind r = setting_Deployment"
  then show "\<exists>d. GetDeployment k ns (r_Name r) = Found d \<and> w_Generation d \<le> w_ObservedGeneration d
               \<and> w_UpdatedReplicas d = w_Replicas d \<and> w_AvailableReplicas d = w_Replicas d"
    by (cases "GetDeployment k ns (r_Name r)") (auto simp: resourceReady_def Deployment_Ready_def)
next
  assume "resourceReady k ns r \<and> r_Kind r = setting_StatefulSet"
  then show "\<exists>s. GetStatefulSet k ns (r_Name r) = Found s \<and> w_Generation s \<le> w_ObservedGeneration s
               \<and> w_UpdatedReplicas s = w_Replicas s \<and> w_AvailableReplicas s = w_Replicas s"
    by (cases "GetStatefulSet k ns (r_Name r)")
      (auto simp: resourceReady_def StatefulSet_Ready_def setting_Deployment_def setting_StatefulSet_def)
next
  assume "w_Replicas s = 3 \<and> w_UpdatedReplicas s = 3 \<and> w_AvailableReplicas s = 2"
  then show "\<not> StatefulSet_Ready s" by (simp add: StatefulSet_Ready_def)
qed

text \<open>With the third replica available the pass sets \<open>Passed\<close>, and the StatefulSet is
  ready; with two available replicas the pass leaves the status \<open>Running\<close>.\<close>

theorem passed_only_when_all_ready_witness:
  "TaskStatus (fst (pollTick caughtUpKube dbTask)) = StatusPassed
   \<and> TaskStatus dbTask \<noteq> StatusPassed
   \<and> resourceReady caughtUpKube (Namespace dbTask) (ReplaceResources dbTask ! 0)
   \<and> length (ReplaceResources dbTask) = 1
   \<and> w_Replicas laggingStatefulSet = 3 \<and> w_UpdatedReplicas laggingStatefulSet = 3
   \<and> w_AvailableReplicas laggingStatefulSet = 2
   \<and> \<not> StatefulSet_Ready laggingStatefulSet
   \<and> pollTick laggingKube dbTask = (dbTask, False)
   \<and> TaskStatus dbTask = StatusRunning"
proof -
  have h: "TaskStatus (fst (pollTick caughtUpKube dbTask)) = StatusPassed
           \<and> TaskStatus dbTask \<noteq> StatusPassed"
    by code_simp
  have l: "w_Replicas laggingStatefulSet = 3 \<and> w_UpdatedReplicas laggingStatefulSet = 3
           \<and> w_AvailableReplicas laggingStatefulSet = 2"
    by (simp add: laggingStatefulSet_def)
  have rr: "ReplaceResources dbTask ! 0 \<in> set (ReplaceResources dbTask)"
    "length (ReplaceResources dbTask) = 1"
    by (simp_all add: dbTask_def demoTask_def)
  from passed_only_when_all_ready [of caughtUpKube dbTask _ _ _ _ laggingStatefulSet] h l rr(1)
  have "resourceReady caughtUpKube (Namespace dbTask) (ReplaceResources dbTask ! 0)
        \<and> \<not> StatefulSet_Ready laggingStatefulSet"
    by blast
  moreover have "pollTick laggingKube dbTask = (dbTask, False) \<and> TaskStatus dbTask = StatusRunning"
    by code_simp
  ultimately show ?thesis using h l rr(2) by blast
qed

subsection \<open>The pod check of a pass\<close>
















subsection \<open>The diagnostic scan of the timeout case\<close>

lemma containerLines_filter:
  "containerLines cs = map diagLine (filter (\<lambda>c. rc_Message c \<noteq> '''') cs)"
  by (induction cs) simp_all

lemma podLines_concat: "podLines ps = concat (map podDiag ps)"
  by (induction ps) (simp_all add: podDiag_def containerLines_filter)

lemma timeoutScan_all_listed:
  "\<forall>l\<in>set ls. ListPods k ns l = Inr (pods l) \<Longrightarrow>
   timeoutScan k ns ls msg = Inr (msg @ concat (map (\<lambda>l. concat (map podDiag (pods l))) ls))"
  by (induction ls arbitrary: msg) (simp_all add: podLines_concat)

lemma timeoutScan_listing_fails:
  "\<exists>l\<in>set ls. \<exists>e. ListPods k ns l = Inl e \<Longrightarrow>
   \<exists>l\<in>set ls. \<exists>e. ListPods k ns l = Inl e \<and> timeoutScan k ns ls msg = Inl e"
proof (induction ls arbitrary: msg)
  case Nil
  then show ?case by simp
next
  case (Cons a ls)
  show ?case
  proof (cases "ListPods k ns a")
    case (Inl e)
    then show ?thesis by simp
  next
    case (Inr ps)
    with Cons.prems have "\<exists>l\<in>set ls. \<exists>e. ListPods k ns l = Inl e" by auto
    from Cons.IH [OF this, of "msg @ podLines ps"] Inr show ?thesis by auto
  qed
qed

lemma onTimeout_frame:
  "onTimeout k t = t\<lparr>TaskStatus := StatusTimeout, Error := Error (onTimeout k t)\<rparr>"
  by (simp add: onTimeout_def split: sum.splits)

text \<open>
  Claim C3 as stated fails. The pods listed through the task's labels are a pending pod
  whose container waits with reason \<open>ContainerCreating\<close> (not one of the four reasons)
  and a running pod whose container waits in \<open>CrashLoopBackOff\<close>. No workload gets
  ready, the timer fires, and \<open>Error\<close> becomes the line of the first pod; the second
  pod contributes nothing.
\<close>

theorem timeout_collects_other_reasons:
  "RelatedPodLabels patchedTwoTask = [[(''app'', ''myservice'')], [(''app'', ''db'')]]
   \<and> ListPods podsKube (Namespace patchedTwoTask) [(''app'', ''myservice'')] = Inr [creatingPod]
   \<and> ListPods podsKube (Namespace patchedTwoTask) [(''app'', ''db'')] = Inr [crashPod]
   \<and> pod_InitContainerStatuses creatingPod @ pod_ContainerStatuses creatingPod
       = [\<lparr>cs_Waiting = Some (''ContainerCreating'', ''pulling image'')\<rparr>]
   \<and> \<not> terminalReason ''ContainerCreating''
   \<and> pod_InitContainerStatuses crashPod @ pod_ContainerStatuses crashPod
       = [\<lparr>cs_Waiting = Some (''CrashLoopBackOff'', ''back-off restarting'')\<rparr>]
   \<and> terminalReason ''CrashLoopBackOff''
   \<and> map_option TaskStatus (Wait stuckWaitEnv patchedTwoTask) = Some StatusTimeout
   \<and> map_option Error (Wait stuckWaitEnv patchedTwoTask)
       = Some ''Status: waiting, Reason: ContainerCreating, Message: pulling image''"
proof -
  have "RelatedPodLabels patchedTwoTask = [[(''app'', ''myservice'')], [(''app'', ''db'')]]
     \<and> ListPods podsKube (Namespace patchedTwoTask) [(''app'', ''myservice'')] = Inr [creatingPod]
     \<and> ListPods podsKube (Namespace patchedTwoTask) [(''app'', ''db'')] = Inr [crashPod]"
    by (simp add: patchedTwoTask_def podsKube_def)
  moreover have "pod_InitContainerStatuses creatingPod @ pod_ContainerStatuses creatingPod
       = [\<lparr>cs_Waiting = Some (''ContainerCreating'', ''pulling image'')\<rparr>]
     \<and> \<not> terminalReason ''ContainerCreating''
     \<and> pod_InitContainerStatuses crashPod @ pod_ContainerStatuses crashPod
       = [\<lparr>cs_Waiting = Some (''CrashLoopBackOff'', ''back-off restarting'')\<rparr>]
     \<and> terminalReason ''CrashLoopBackOff''"
    by (simp add: creatingPod_def crashPod_def terminalReason_def)
  moreover have "map_option TaskStatus (Wait stuckWaitEnv patchedTwoTask) = Some StatusTimeout
     \<and> map_option Error (Wait stuckWaitEnv patchedTwoTask)
         = Some ''Status: waiting, Reason: ContainerCreating, Message: pulling image''"
    by code_simp
  ultimately show ?thesis by blast
qed

text \<open>
  Claim C3, amended. When the timer case is taken, the status becomes \<open>Timeout\<close> and only
  \<open>TaskStatus\<close> and \<open>Error\<close> change. If every listing of pods for the task's label sets
  succeeds, the lines are collected in label, pod and container order: for every pod
  whose view has a status other than \<open>Running\<close> and \<open>Succeeded\<close>, one line
  \<open>Status: .., Reason: .., Message: ..\<close> for each container of the view with a non-empty
  message, whatever its reason; \<open>Error\<close> becomes the lines joined by newlines if there
  is one, and stays as it was otherwise. If a listing fails, \<open>Error\<close> is the error of a
  failed listing.
\<close>

theorem timeout_collects_nonempty_messages:
  "waitLoop k [] t = onTimeout k t
   \<and> TaskStatus (onTimeout k t) = StatusTimeout
   \<and> onTimeout k t = t\<lparr>TaskStatus := StatusTimeout, Error := Error (onTimeout k t)\<rparr>
   \<and> ((\<forall>l\<in>set (RelatedPodLabels t). ListPods k (Namespace t) l = Inr (pods l)) \<longrightarrow>
        Error (onTimeout k t)
          = (let lines = concat (map (\<lambda>l. concat (map podDiag (pods l))) (RelatedPodLabels t))
             in if lines = [] then Error t else Join lines [CHR 0x0A]))
   \<and> ((\<exists>l\<in>set (RelatedPodLabels t). \<exists>e. ListPods k (Namespace t) l = Inl e) \<longrightarrow>
        (\<exists>l\<in>set (RelatedPodLabels t). ListPods k (Namespace t) l = Inl (Error (onTimeout k t))))"
proof (intro conjI impI)
  show "waitLoop k [] t = onTimeout k t" by simp
  show "TaskStatus (onTimeout k t) = StatusTimeout"
    by (simp add: onTimeout_def split: sum.splits)
  show "onTimeout k t = t\<lparr>TaskStatus := StatusTimeout, Error := Error (onTimeout k t)\<rparr>"
    by (rule onTimeout_frame)
next
  assume "\<forall>l\<in>set (RelatedPodLabels t). ListPods k (Namespace t) l = Inr (pods l)"
  from timeoutScan_all_listed [OF this, of "[]"]
  show "Error (onTimeout k t)
          = (let lines = concat (map (\<lambda>l. concat (map podDiag (pods l))) (RelatedPodLabels t))
             in if lines = [] then Error t else Join lines [CHR 0x0A])"
    by (simp add: onTimeout_def Let_def)
next
  assume "\<exists>l\<in>set (RelatedPodLabels t). \<exists>e. ListPods k (Namespace t) l = Inl e"
  from timeoutScan_listing_fails [OF this, of "[]"]
  obtain l e where "l \<in> set (RelatedPodLabels t)" "ListPods k (Namespace t) l = Inl e"
    "timeoutScan k (Namespace t) (RelatedPodLabels t) [] = Inl e" by blast
  then show "\<exists>l\<in>set (RelatedPodLabels t). ListPods k (Namespace t) l = Inl (Error (onTimeout k t))"
    by (auto simp: onTimeout_def)
qed

text \<open>The two pods at the timeout: the pending pod gives one line, the running pod
  none.\<close>

theorem timeout_collects_nonempty_messages_witness:
  "RelatedPodLabels twoResourceTask = [[(''app'', ''myservice'')], [(''app'', ''db'')]]
   \<and> ListPods podsKube (Namespace twoResourceTask) [(''app'', ''myservice'')] = Inr [creatingPod]
   \<and> ListPods podsKube (Namespace twoResourceTask) [(''app'', ''db'')] = Inr [crashPod]
   \<and> podDiag creatingPod = [''Status: waiting, Reason: ContainerCreating, Message: pulling image'']
   \<and> podDiag crashPod = []
   \<and> Error (onTimeout podsKube twoResourceTask)
       = ''Status: waiting, Reason: ContainerCreating, Message: pulling image''"
proof -
  let ?l1 = "[(''app'', ''myservice'')]"
  let ?l2 = "[(''app'', ''db'')]"
  let ?pods = "\<lambda>l. if l = ?l1 then [creatingPod] else [crashPod]"
  have a: "RelatedPodLabels twoResourceTask = [?l1, ?l2]"
    by (simp add: twoResourceTask_def patchedTwoTask_def)
  have b: "ListPods podsKube (Namespace twoResourceTask) ?l1 = Inr [creatingPod]"
    "ListPods podsKube (Namespace twoResourceTask) ?l2 = Inr [crashPod]"
    by (simp_all add: podsKube_def)
  have c: "podDiag creatingPod = [''Status: waiting, Reason: ContainerCreating, Message: pulling image'']
           \<and> podDiag crashPod = []"
    by (simp add: podDiag_def creatingPod_def crashPod_def diagLine_def
        setting_StatusRunning_def setting_StatusSucceeded_def)
  have h: "\<forall>l\<in>set (RelatedPodLabels twoResourceTask).
             ListPods podsKube (Namespace twoResourceTask) l = Inr (?pods l)"
    using a b by simp
  from timeout_collects_nonempty_messages [of podsKube twoResourceTask ?pods] h
  have "Error (onTimeout podsKube twoResourceTask)
          = (let lines = concat (map (\<lambda>l. concat (map podDiag (?pods l)))
                                   (RelatedPodLabels twoResourceTask))
             in if lines = [] then Error twoResourceTask else Join lines [CHR 0x0A])"
    by blast
  with a c have "Error (onTimeout podsKube twoResourceTask)
       = ''Status: waiting, Reason: ContainerCreating, Message: pulling image''"
    by simp
  with a b c show ?thesis by blast
qed

subsection \<open>Assignments of the status\<close>

lemma Run_body_status: "TaskStatus (snd (Run_body env t)) = TaskStatus t"
  using Run_body_shape [of env t] by (elim exE conjE) simp

lemma waitLoop_status:
  "TaskStatus (waitLoop kt ts t) = TaskStatus t \<or> TaskStatus (waitLoop kt ts t) = StatusPassed
   \<or> TaskStatus (waitLoop kt ts t) = StatusFailed \<or> TaskStatus (waitLoop kt ts t) = StatusTimeout
   \<or> TaskStatus (waitLoop kt ts t) = StatusCancelled"
proof (induction ts)
  case Nil
  show ?case by (simp add: onTimeout_def split: sum.splits)
next
  case (Cons a ts)
  show ?case
  proof (cases a)
    case CtxDone
    then show ?thesis by simp
  next
    case (Poll k)
    from pollTick_cases [of k t] show ?thesis
    proof (elim disjE exE conjE)
      fix e assume "pollTick k t = (t\<lparr>TaskStatus := StatusFailed, Error := e\<rparr>, True)"
      with Poll show ?thesis by simp
    next
      assume "pollTick k t = (t\<lparr>TaskStatus := StatusPassed\<rparr>, True)"
      with Poll show ?thesis by simp
    next
      assume "pollTick k t = (t, IsTaskDone t)"
      with Poll Cons.IH show ?thesis by (cases "IsTaskDone t") simp_all
    qed
  qed
qed

lemma Wait_status:
  assumes "Wait wenv t = Some t'"
  shows "TaskStatus t' = TaskStatus t \<or> TaskStatus t' = StatusPassed \<or> TaskStatus t' = StatusFailed
         \<or> TaskStatus t' = StatusTimeout \<or> TaskStatus t' = StatusCancelled"
proof (cases "SkipWaiting t")
  case True
  with assms show ?thesis by (auto simp: Wait_def)
next
  case False
  let ?t = "TaskTimeout (DeployTimeout wenv) t"
  have t1: "TaskStatus ?t = TaskStatus t" by (simp add: TaskTimeout_def)
  show ?thesis
  proof (cases "snd (getResourcesPodOwnerUID (atSetup wenv) (sortSlice wenv) ?t)")
    case None
    with False assms show ?thesis by (simp add: Wait_def Let_def)
  next
    case (Some res)
    obtain resources err where res: "res = (resources, err)" by (cases res)
    show ?thesis
    proof (cases err)
      case (Some e)
      with False assms \<open>snd (getResourcesPodOwnerUID (atSetup wenv) (sortSlice wenv) ?t) = Some res\<close> res
      have "t' = ?t\<lparr>Error := ''get resource owner info error: '' @ e\<rparr>"
        by (simp add: Wait_def Let_def)
      with t1 show ?thesis by simp
    next
      case None
      let ?u = "?t\<lparr>ReplaceResources := resources\<rparr>"
      from None False assms \<open>snd (getResourcesPodOwnerUID (atSetup wenv) (sortSlice wenv) ?t) = Some res\<close> res
      have t': "t' = waitLoop (atTimeout wenv) (ticks wenv) ?u"
        by (simp add: Wait_def Let_def)
      have "TaskStatus ?u = TaskStatus t" using t1 by simp
      with waitLoop_status [of "atTimeout wenv" "ticks wenv" ?u] t' show ?thesis by simp
    qed
  qed
qed

text \<open>
  Claim C2 as stated fails. \<open>Run\<close> finds no container and its deferred function sets
  \<open>Failed\<close>. A following \<open>Wait\<close> replaces that terminal status: by \<open>Passed\<close> on its first
  pass (no resource is tracked, so the pass finds all of them ready), by \<open>Passed\<close> at
  once when \<open>SkipWaiting\<close> is set, by \<open>Cancelled\<close> when the context is done.
\<close>

theorem wait_overwrites_terminal_status:
  "TaskStatus (Run noWorkloadEnv demoTask) = StatusFailed
   \<and> map_option TaskStatus (Wait (demoWaitEnv\<lparr>ticks := [Poll emptyKube]\<rparr>) (Run noWorkloadEnv demoTask))
       = Some StatusPassed
   \<and> map_option TaskStatus (Wait (demoWaitEnv\<lparr>ticks := [CtxDone]\<rparr>) (Run noWorkloadEnv demoTask))
       = Some StatusCancelled
   \<and> TaskStatus (Run noWorkloadEnv (demoTask\<lparr>SkipWaiting := True\<rparr>)) = StatusFailed
   \<and> map_option TaskStatus (Wait demoWaitEnv (Run noWorkloadEnv (demoTask\<lparr>SkipWaiting := True\<rparr>)))
       = Some StatusPassed"
  by code_simp

text \<open>
  Claim C2, amended. \<open>Run\<close> changes the status only through its deferred function, to
  \<open>Failed\<close> and only when its error is not nil; \<open>Complete\<close> changes nothing. \<open>Wait\<close>
  does not look at the status it finds (except to stop after a pass when the task is
  already done): it leaves the status as it was or assigns one of \<open>Passed\<close>, \<open>Failed\<close>,
  \<open>Timeout\<close>, \<open>Cancelled\<close>, and with \<open>SkipWaiting\<close> it assigns \<open>Passed\<close> whatever the
  status was. A terminal status is therefore not protected from \<open>Wait\<close>.
\<close>

theorem status_changes_of_the_plugin:
  "(TaskStatus (Run env t) = TaskStatus t
      \<or> (fst (Run_body env t) \<noteq> None \<and> TaskStatus (Run env t) = StatusFailed))
   \<and> Complete t = t
   \<and> (Wait wenv t = Some t' \<longrightarrow>
        TaskStatus t' = TaskStatus t \<or> TaskStatus t' = StatusPassed \<or> TaskStatus t' = StatusFailed
        \<or> TaskStatus t' = StatusTimeout \<or> TaskStatus t' = StatusCancelled)
   \<and> (SkipWaiting t \<longrightarrow> Wait wenv t = Some (t\<lparr>TaskStatus := StatusPassed\<rparr>))"
proof (intro conjI impI)
  show "TaskStatus (Run env t) = TaskStatus t
      \<or> (fst (Run_body env t) \<noteq> None \<and> TaskStatus (Run env t) = StatusFailed)"
    using Run_body_status [of env t]
    by (cases "fst (Run_body env t)") (simp_all add: Run_def Run_deferred_def)
  show "Complete t = t" by (simp add: Complete_def)
next
  assume "Wait wenv t = Some t'"
  then show "TaskStatus t' = TaskStatus t \<or> TaskStatus t' = StatusPassed \<or> TaskStatus t' = StatusFailed
        \<or> TaskStatus t' = StatusTimeout \<or> TaskStatus t' = StatusCancelled"
    by (rule Wait_status)
next
  assume "SkipWaiting t"
  then show "Wait wenv t = Some (t\<lparr>TaskStatus := StatusPassed\<rparr>)" by (simp add: Wait_def)
qed

text \<open>\<open>Wait\<close> for the StatefulSet: not ready on the first pass, ready on the second.\<close>

theorem status_changes_of_the_plugin_witness:
  "Wait dbWaitEnv dbTask = Some (dbTask\<lparr>Timeout := 600, TaskStatus := StatusPassed\<rparr>)
   \<and> TaskStatus (dbTask\<lparr>Timeout := 600, TaskStatus := StatusPassed\<rparr>) = StatusPassed
   \<and> SkipWaiting (demoTask\<lparr>SkipWaiting := True, TaskStatus := StatusFailed\<rparr>)
   \<and> Wait dbWaitEnv (demoTask\<lparr>SkipWaiting := True, TaskStatus := StatusFailed\<rparr>)
       = Some (demoTask\<lparr>SkipWaiting := True, TaskStatus := StatusPassed\<rparr>)"
proof -
  let ?t' = "dbTask\<lparr>Timeout := 600, TaskStatus := StatusPassed\<rparr>"
  let ?s = "demoTask\<lparr>SkipWaiting := True, TaskStatus := StatusFailed\<rparr>"
  have w: "Wait dbWaitEnv dbTask = Some ?t'" by code_simp
  with status_changes_of_the_plugin [of _ dbTask dbWaitEnv ?t']
  have "TaskStatus ?t' = TaskStatus dbTask \<or> TaskStatus ?t' = StatusPassed \<or> TaskStatus ?t' = StatusFailed
        \<or> TaskStatus ?t' = StatusTimeout \<or> TaskStatus ?t' = StatusCancelled"
    by blast
  then have p: "TaskStatus ?t' = StatusPassed" by (simp add: dbTask_def demoTask_def)
  have s: "SkipWaiting ?s" by simp
  with status_changes_of_the_plugin [of _ ?s dbWaitEnv]
  have "Wait dbWaitEnv ?s = Some (?s\<lparr>TaskStatus := StatusPassed\<rparr>)" by blast
  then have "Wait dbWaitEnv ?s = Some (demoTask\<lparr>SkipWaiting := True, TaskStatus := StatusPassed\<rparr>)"
    by simp
  with w p s show ?thesis by blast
qed

subsection \<open>The pod owners computed by the setup of Wait\<close>

lemma mset_insertBy: "mset (insertBy lt x xs) = add_mset x (mset xs)"
  by (induction xs) simp_all

lemma mset_insertionSort: "mset (insertionSort lt xs) = mset xs"
  by (induction xs) (simp_all add: mset_insertBy)

lemma set_insertBy: "set (insertBy lt x xs) = insert x (set xs)"
  by (induction xs) auto

lemma newest_first_insertBy:
  "sorted_wrt (\<lambda>a b. \<not> createdAfter b a) xs \<Longrightarrow>
   sorted_wrt (\<lambda>a b. \<not> createdAfter b a) (insertBy createdAfter x xs)"
  by (induction xs) (auto simp: set_insertBy createdAfter_def)

lemma newest_first_insertionSort:
  "sorted_wrt (\<lambda>a b. \<not> createdAfter b a) (insertionSort createdAfter xs)"
  by (induction xs) (simp_all add: newest_first_insertBy)

lemma insertionSort_sortsNewestFirst: "sortsNewestFirst insertionSort"
  by (simp add: sortsNewestFirst_def mset_insertionSort newest_first_insertionSort)

lemma head_is_newest:
  assumes "sortsNewestFirst srt" and "srt createdAfter owned = first # rest"
  shows "first \<in> set owned \<and> (\<forall>x\<in>set owned. rs_CreationTimestamp x \<le> rs_CreationTimestamp first)"
proof -
  from assms(1) have m: "mset (srt createdAfter owned) = mset owned"
    and s: "sorted_wrt (\<lambda>a b. \<not> createdAfter b a) (srt createdAfter owned)"
    by (simp_all add: sortsNewestFirst_def)
  from m have "set (srt createdAfter owned) = set owned" by (rule mset_eq_setD)
  with assms(2) have st: "set owned = insert first (set rest)" by simp
  from s assms(2) have "\<forall>x\<in>set rest. \<not> createdAfter x first" by simp
  with st show ?thesis by (auto simp: createdAfter_def)
qed

lemma distinct_kinds:
  "setting_StatefulSet \<noteq> setting_Deployment" "setting_CronJob \<noteq> setting_Deployment"
  "setting_CronJob \<noteq> setting_StatefulSet"
  by (simp_all add: setting_StatefulSet_def setting_Deployment_def setting_CronJob_def)

lemma ownerStep_Enriched:
  assumes "sortsNewestFirst srt" and "snd (ownerStep k srt ns r) = Enriched r'"
  shows "enriched k ns r r'"
proof -
  consider (sts) "r_Kind r = setting_StatefulSet"
    | (dep) "r_Kind r \<noteq> setting_StatefulSet" "r_Kind r = setting_Deployment"
    | (other) "r_Kind r \<noteq> setting_StatefulSet" "r_Kind r \<noteq> setting_Deployment" by blast
  then show ?thesis
  proof cases
    case sts
    with assms(2) obtain s where "GetStatefulSet k ns (r_Name r) = Found s"
      "r' = r\<lparr>r_PodOwnerUID := w_UID s\<rparr>"
      by (cases "GetStatefulSet k ns (r_Name r)") (auto simp: ownerStep_def)
    with sts distinct_kinds(1) show ?thesis by (simp add: enriched_def)
  next
    case dep
    with assms(2) obtain d where d: "GetDeployment k ns (r_Name r) = Found d"
      by (cases "GetDeployment k ns (r_Name r)") (auto simp: ownerStep_def)
    with dep assms(2) obtain sel where sel: "LabelSelectorAsSelector k (w_Selector d) = Inr sel"
      by (cases "LabelSelectorAsSelector k (w_Selector d)") (auto simp: ownerStep_def)
    with dep d assms(2) obtain rss where rss: "ListReplicaSets k ns sel = Inr rss"
      by (cases "ListReplicaSets k ns sel") (auto simp: ownerStep_def)
    let ?owned = "filter (\<lambda>rs. IsControlledBy rs d) rss"
    from dep d sel rss assms(2) obtain first rest where
      srt: "srt createdAfter ?owned = first # rest" and r': "r' = r\<lparr>r_PodOwnerUID := rs_UID first\<rparr>"
      by (cases "srt createdAfter ?owned")
        (auto simp: ownerStep_def Let_def split: if_splits)
    from head_is_newest [OF assms(1) srt]
    have "first \<in> set rss" "IsControlledBy first d"
      "\<forall>x\<in>set rss. IsControlledBy x d \<longrightarrow> rs_CreationTimestamp x \<le> rs_CreationTimestamp first"
      by auto
    with dep d sel rss r' show ?thesis
      unfolding enriched_def by (intro conjI impI exI [of _ d] exI [of _ sel] exI [of _ rss] exI [of _ first]) simp_all
  next
    case other
    with assms(2) have "r' = r" by (simp add: ownerStep_def)
    with other show ?thesis by (simp add: enriched_def)
  qed
qed

lemma ownerStep_log:
  "graceBeforeListing (fst (ownerStep k srt ns r) @ rest) = graceBeforeListing rest"
  by (simp add: ownerStep_def Let_def split: got.splits sum.splits list.splits)

lemma ownerLoop_log: "graceBeforeListing (fst (ownerLoop k srt ns acc rs))"
proof (induction rs arbitrary: acc)
  case Nil
  show ?case by simp
next
  case (Cons r rs)
  obtain log res where step: "ownerStep k srt ns r = (log, res)" by (cases "ownerStep k srt ns r")
  from ownerStep_log [of k srt ns r "[]"] step have l0: "graceBeforeListing log" by simp
  show ?case
  proof (cases res)
    case (Enriched r')
    obtain log' out where rec: "ownerLoop k srt ns (acc @ [r']) rs = (log', out)"
      by (cases "ownerLoop k srt ns (acc @ [r']) rs")
    from Cons [of "acc @ [r']"] rec have "graceBeforeListing log'" by simp
    with ownerStep_log [of k srt ns r log'] step have "graceBeforeListing (log @ log')" by simp
    with step Enriched rec show ?thesis by simp
  qed (use step l0 in simp_all)
qed

lemma ownerLoop_result:
  "snd (ownerLoop k srt ns acc rs) = Some (out, None) \<Longrightarrow>
   \<exists>rs'. out = acc @ rs' \<and> list_all2 (\<lambda>r r'. snd (ownerStep k srt ns r) = Enriched r') rs rs'"
proof (induction rs arbitrary: acc)
  case Nil
  then show ?case by simp
next
  case (Cons r rs)
  obtain log res where step: "ownerStep k srt ns r = (log, res)" by (cases "ownerStep k srt ns r")
  show ?case
  proof (cases res)
    case (Enriched r')
    obtain log' res' where rec: "ownerLoop k srt ns (acc @ [r']) rs = (log', res')"
      by (cases "ownerLoop k srt ns (acc @ [r']) rs")
    with Cons.prems step Enriched have "snd (ownerLoop k srt ns (acc @ [r']) rs) = Some (out, None)"
      by simp
    from Cons.IH [OF this] obtain rs' where "out = (acc @ [r']) @ rs'"
      "list_all2 (\<lambda>r r'. snd (ownerStep k srt ns r) = Enriched r') rs rs'" by blast
    with step Enriched show ?thesis by (intro exI [of _ "r' # rs'"]) simp
  qed (use Cons.prems step in simp_all)
qed

lemma waitLoop_resources: "ReplaceResources (waitLoop kt ts t) = ReplaceResources t"
proof (induction ts)
  case Nil
  show ?case by (simp add: onTimeout_def split: sum.splits)
next
  case (Cons a ts)
  show ?case
  proof (cases a)
    case CtxDone
    then show ?thesis by simp
  next
    case (Poll k)
    from pollTick_cases [of k t] show ?thesis
    proof (elim disjE exE conjE)
      fix e assume "pollTick k t = (t\<lparr>TaskStatus := StatusFailed, Error := e\<rparr>, True)"
      with Poll show ?thesis by simp
    next
      assume "pollTick k t = (t\<lparr>TaskStatus := StatusPassed\<rparr>, True)"
      with Poll show ?thesis by simp
    next
      assume "pollTick k t = (t, IsTaskDone t)"
      with Poll Cons.IH show ?thesis by (cases "IsTaskDone t") simp_all
    qed
  qed
qed

lemma Wait_resources:
  assumes "Wait wenv t = Some t'"
  shows "ReplaceResources t' = ReplaceResources t
         \<or> (\<exists>log. getResourcesPodOwnerUID (atSetup wenv) (sortSlice wenv) (TaskTimeout (DeployTimeout wenv) t)
                     = (log, Some (ReplaceResources t', None)))"
proof (cases "SkipWaiting t")
  case True
  with assms show ?thesis by (auto simp: Wait_def)
next
  case False
  let ?t = "TaskTimeout (DeployTimeout wenv) t"
  let ?g = "getResourcesPodOwnerUID (atSetup wenv) (sortSlice wenv) ?t"
  have t1: "ReplaceResources ?t = ReplaceResources t" by (simp add: TaskTimeout_def)
  show ?thesis
  proof (cases "snd ?g")
    case None
    with False assms show ?thesis by (simp add: Wait_def Let_def)
  next
    case (Some res)
    obtain resources err where res: "res = (resources, err)" by (cases res)
    show ?thesis
    proof (cases err)
      case (Some e)
      with False assms \<open>snd ?g = Some res\<close> res
      have "t' = ?t\<lparr>Error := ''get resource owner info error: '' @ e\<rparr>"
        by (simp add: Wait_def Let_def)
      with t1 show ?thesis by simp
    next
      case None
      from None False assms \<open>snd ?g = Some res\<close> res
      have "t' = waitLoop (atTimeout wenv) (ticks wenv) (?t\<lparr>ReplaceResources := resources\<rparr>)"
        by (simp add: Wait_def Let_def)
      then have "ReplaceResources t' = resources" by (simp add: waitLoop_resources)
      with None \<open>snd ?g = Some res\<close> res have "?g = (fst ?g, Some (ReplaceResources t', None))"
        by (cases ?g) simp
      then show ?thesis by blast
    qed
  qed
qed

lemma setup_enriches:
  assumes "sortsNewestFirst srt" and "getResourcesPodOwnerUID k srt t = (log, Some (rs', None))"
  shows "length rs' = length (ReplaceResources t)"
    and "\<forall>i<length rs'. enriched k (Namespace t) (ReplaceResources t ! i) (rs' ! i)"
    and "graceBeforeListing log"
proof -
  from assms(2) have s: "snd (ownerLoop k srt (Namespace t) [] (ReplaceResources t)) = Some (rs', None)"
    and l: "fst (ownerLoop k srt (Namespace t) [] (ReplaceResources t)) = log"
    by (simp_all add: getResourcesPodOwnerUID_def)
  from ownerLoop_result [OF s]
  have la: "list_all2 (\<lambda>r r'. snd (ownerStep k srt (Namespace t) r) = Enriched r') (ReplaceResources t) rs'"
    by simp
  then show len: "length rs' = length (ReplaceResources t)" by (simp add: list_all2_lengthD)
  show "\<forall>i<length rs'. enriched k (Namespace t) (ReplaceResources t ! i) (rs' ! i)"
  proof (intro allI impI)
    fix i assume "i < length rs'"
    with len have "i < length (ReplaceResources t)" by simp
    from list_all2_nthD [OF la this]
    have "snd (ownerStep k srt (Namespace t) (ReplaceResources t ! i)) = Enriched (rs' ! i)" .
    with assms(1) show "enriched k (Namespace t) (ReplaceResources t ! i) (rs' ! i)"
      by (rule ownerStep_Enriched)
  qed
  from ownerLoop_log [of k srt "Namespace t" "[]" "ReplaceResources t"] l
  show "graceBeforeListing log" by simp
qed

text \<open>
  Claim C6. When the setup of \<open>Wait\<close> succeeds (\<open>getResourcesPodOwnerUID\<close> returns no
  error), the list it returns has the resources of the task in their order, each with
  its pod owner filled in and nothing else changed: a StatefulSet gets its own UID, a
  Deployment the UID of a ReplicaSet it controls that no other ReplicaSet it controls
  was created after, a resource of another kind (CronJob) is unchanged; and every
  listing of ReplicaSets comes directly after a sleep of three seconds. \<open>Wait\<close> stores
  this list in the task only then, and nothing in \<open>Wait\<close> changes the list afterwards, so
  every resource of the task after \<open>Wait\<close> is the one before, unchanged or with its pod
  owner filled in.
\<close>

theorem pod_owner_fingerprints:
  "(sortsNewestFirst srt \<and> getResourcesPodOwnerUID k srt t = (log, Some (rs', None)) \<longrightarrow>
      length rs' = length (ReplaceResources t)
      \<and> (\<forall>i<length rs'. enriched k (Namespace t) (ReplaceResources t ! i) (rs' ! i))
      \<and> graceBeforeListing log)
   \<and> (sortsNewestFirst (sortSlice wenv) \<and> Wait wenv t = Some t' \<longrightarrow>
      length (ReplaceResources t') = length (ReplaceResources t)
      \<and> (\<forall>i<length (ReplaceResources t).
            ReplaceResources t' ! i = ReplaceResources t ! i
            \<or> enriched (atSetup wenv) (Namespace t) (ReplaceResources t ! i) (ReplaceResources t' ! i)))"
proof (intro conjI impI)
  assume h: "sortsNewestFirst srt \<and> getResourcesPodOwnerUID k srt t = (log, Some (rs', None))"
  then have a: "sortsNewestFirst srt" and b: "getResourcesPodOwnerUID k srt t = (log, Some (rs', None))"
    by blast+
  from setup_enriches [OF a b]
  show "length rs' = length (ReplaceResources t)"
    and "\<forall>i<length rs'. enriched k (Namespace t) (ReplaceResources t ! i) (rs' ! i)"
    and "graceBeforeListing log" by blast+
next
  assume h: "sortsNewestFirst (sortSlice wenv) \<and> Wait wenv t = Some t'"
  then have a: "sortsNewestFirst (sortSlice wenv)" and w: "Wait wenv t = Some t'" by blast+
  let ?t = "TaskTimeout (DeployTimeout wenv) t"
  have t1: "ReplaceResources ?t = ReplaceResources t" "Namespace ?t = Namespace t"
    by (simp_all add: TaskTimeout_def)
  from Wait_resources [OF w]
  have "length (ReplaceResources t') = length (ReplaceResources t)
      \<and> (\<forall>i<length (ReplaceResources t).
            ReplaceResources t' ! i = ReplaceResources t ! i
            \<or> enriched (atSetup wenv) (Namespace t) (ReplaceResources t ! i) (ReplaceResources t' ! i))"
  proof (elim disjE exE)
    assume "ReplaceResources t' = ReplaceResources t"
    then show ?thesis by simp
  next
    fix log
    assume g: "getResourcesPodOwnerUID (atSetup wenv) (sortSlice wenv) ?t
                 = (log, Some (ReplaceResources t', None))"
    from setup_enriches(1,2) [OF a g] t1 show ?thesis by simp
  qed
  then show "length (ReplaceResources t') = length (ReplaceResources t)"
    and "\<forall>i<length (ReplaceResources t).
            ReplaceResources t' ! i = ReplaceResources t ! i
            \<or> enriched (atSetup wenv) (Namespace t) (ReplaceResources t ! i) (ReplaceResources t' ! i)"
    by blast+
qed

text \<open>A Deployment with two ReplicaSets of its own (the newer one is \<open>rs-new\<close>) and one
  of another owner, a StatefulSet and a CronJob.\<close>

theorem pod_owner_fingerprints_witness:
  "sortsNewestFirst insertionSort
   \<and> getResourcesPodOwnerUID rolloutKube insertionSort threeKindsTask
       = ([WGetDeployment ''myservice'', WSleep 3, WListReplicaSets, WGetStatefulSet ''db''],
          Some ([(ReplaceResources threeKindsTask ! 0)\<lparr>r_PodOwnerUID := ''rs-new''\<rparr>,
                 (ReplaceResources threeKindsTask ! 1)\<lparr>r_PodOwnerUID := ''uid-db''\<rparr>,
                 ReplaceResources threeKindsTask ! 2], None))
   \<and> length (ReplaceResources threeKindsTask) = 3
   \<and> enriched rolloutKube (Namespace threeKindsTask) (ReplaceResources threeKindsTask ! 0)
       ((ReplaceResources threeKindsTask ! 0)\<lparr>r_PodOwnerUID := ''rs-new''\<rparr>)
   \<and> enriched rolloutKube (Namespace threeKindsTask) (ReplaceResources threeKindsTask ! 1)
       ((ReplaceResources threeKindsTask ! 1)\<lparr>r_PodOwnerUID := ''uid-db''\<rparr>)
   \<and> enriched rolloutKube (Namespace threeKindsTask) (ReplaceResources threeKindsTask ! 2)
       (ReplaceResources threeKindsTask ! 2)"
proof -
  let ?rs = "[(ReplaceResources threeKindsTask ! 0)\<lparr>r_PodOwnerUID := ''rs-new''\<rparr>,
              (ReplaceResources threeKindsTask ! 1)\<lparr>r_PodOwnerUID := ''uid-db''\<rparr>,
              ReplaceResources threeKindsTask ! 2]"
  let ?log = "[WGetDeployment ''myservice'', WSleep 3, WListReplicaSets, WGetStatefulSet ''db'']"
  have a: "sortsNewestFirst insertionSort" by (rule insertionSort_sortsNewestFirst)
  have b: "getResourcesPodOwnerUID rolloutKube insertionSort threeKindsTask = (?log, Some (?rs, None))"
    by code_simp
  have c: "length (ReplaceResources threeKindsTask) = 3"
    by (simp add: threeKindsTask_def)
  from pod_owner_fingerprints [of insertionSort rolloutKube threeKindsTask ?log ?rs] a b
  have e: "\<forall>i<length ?rs. enriched rolloutKube (Namespace threeKindsTask)
                         (ReplaceResources threeKindsTask ! i) (?rs ! i)"
    by blast
  from e [rule_format, of 0]
  have e0: "enriched rolloutKube (Namespace threeKindsTask) (ReplaceResources threeKindsTask ! 0)
       ((ReplaceResources threeKindsTask ! 0)\<lparr>r_PodOwnerUID := ''rs-new''\<rparr>)"
    by simp
  from e [rule_format, of 1]
  have e1: "enriched rolloutKube (Namespace threeKindsTask) (ReplaceResources threeKindsTask ! 1)
       ((ReplaceResources threeKindsTask ! 1)\<lparr>r_PodOwnerUID := ''uid-db''\<rparr>)"
    by simp
  from e [rule_format, of 2]
  have e2: "enriched rolloutKube (Namespace threeKindsTask) (ReplaceResources threeKindsTask ! 2)
       (ReplaceResources threeKindsTask ! 2)"
    by simp
  from e0 e1 e2
  have "enriched rolloutKube (Namespace threeKindsTask) (ReplaceResources threeKindsTask ! 0)
       ((ReplaceResources threeKindsTask ! 0)\<lparr>r_PodOwnerUID := ''rs-new''\<rparr>)
   \<and> enriched rolloutKube (Namespace threeKindsTask) (ReplaceResources threeKindsTask ! 1)
       ((ReplaceResources threeKindsTask ! 1)\<lparr>r_PodOwnerUID := ''uid-db''\<rparr>)
   \<and> enriched rolloutKube (Namespace threeKindsTask) (ReplaceResources threeKindsTask ! 2)
       (ReplaceResources threeKindsTask ! 2)"
    by blast
  with a b c show ?thesis by blast
qed

end
